theory Spec2Isabelle
  imports Complex_Main "HOL-Library.AList" "HOL-Library.FSet"
begin

section \<open>JSON values, strings and Qt containers\<close>

text \<open>
  The bridge's resources arrive as JSON. A \<open>QJsonValue\<close> is the datatype \<open>json\<close>; a
  \<open>QJsonObject\<close> is an association list read with \<open>map_of\<close>. The accessors follow
  Qt: \<open>value(key)\<close> of a missing key is the undefined value (here \<open>JNull\<close>, which every
  conversion treats alike), and \<open>toObject\<close>, \<open>toArray\<close>, \<open>toString\<close> of a value of
  another type give the empty object, array and string. A C++ \<open>double\<close> is a \<open>real\<close>:
  NaN and the infinities are outside the model.
\<close>

datatype json =
    JNull
  | JBool bool
  | JNumber real
  | JString string
  | JArray "json list"
  | JObject "(string \<times> json) list"

type_synonym QJsonObject = "(string \<times> json) list"

definition jvalue :: "QJsonObject \<Rightarrow> string \<Rightarrow> json" where
  "jvalue obj k = (case map_of obj k of Some v \<Rightarrow> v | None \<Rightarrow> JNull)"

fun toObject :: "json \<Rightarrow> QJsonObject" where
  "toObject (JObject m) = m"
| "toObject _ = []"

fun toArray :: "json \<Rightarrow> json list" where
  "toArray (JArray xs) = xs"
| "toArray _ = []"

fun toString :: "json \<Rightarrow> string" where
  "toString (JString s) = s"
| "toString _ = []"

fun isObject :: "json \<Rightarrow> bool" where
  "isObject (JObject m) = True"
| "isObject _ = False"

text \<open>
  \<open>QString::trimmed\<close>: the characters for which \<open>QChar::isSpace\<close> holds are dropped at
  both ends. A character of a \<open>string\<close> is one of the 256 code units U+0000 to U+00FF;
  among these \<open>QChar::isSpace\<close> holds for the space, for U+0009 to U+000D, for U+0085
  and for U+00A0. The separators Qt knows above U+00FF have no counterpart in this
  type.
\<close>

definition isSpace :: "char \<Rightarrow> bool" where
  "isSpace c = (c \<in> set [CHR '' '', CHR 0x09, CHR 0x0A, CHR 0x0B, CHR 0x0C, CHR 0x0D, CHR 0x85, CHR 0xA0])"

definition trimmed :: "string \<Rightarrow> string" where
  "trimmed s = rev (dropWhile isSpace (rev (dropWhile isSpace s)))"

definition lowerChar :: "char \<Rightarrow> char" where
  "lowerChar c = (let n = (of_char c :: nat) in if 65 \<le> n \<and> n \<le> 90 then char_of (n + 32) else c)"

definition toLower :: "string \<Rightarrow> string" where
  "toLower s = map lowerChar s"

text \<open>
  A \<open>QHash\<close> is an association list with one entry for each key; the order of the list
  stands for the order in which the hash is iterated. \<open>value(key, default)\<close> is
  \<open>hvalue\<close>, \<open>contains\<close> is \<open>hcontains\<close>, \<open>insert\<close> and \<open>remove\<close> are
  \<open>AList.update\<close> and \<open>AList.delete\<close>.
\<close>

definition hvalue :: "('k \<times> 'v) list \<Rightarrow> 'k \<Rightarrow> 'v \<Rightarrow> 'v" where
  "hvalue h k d = (case map_of h k of Some v \<Rightarrow> v | None \<Rightarrow> d)"

definition hcontains :: "('k \<times> 'v) list \<Rightarrow> 'k \<Rightarrow> bool" where
  "hcontains h k = (k \<in> fst ` set h)"

text \<open>\<open>std::clamp(v, lo, hi)\<close> and \<open>qBound(lo, v, hi)\<close>.\<close>

definition clamp :: "'a::linorder \<Rightarrow> 'a \<Rightarrow> 'a \<Rightarrow> 'a" where
  "clamp v lo hi = (if v < lo then lo else if hi < v then hi else v)"


text \<open>\<open>std::round\<close>, \<open>std::llround\<close> and Qt 6's \<open>qRound\<close>: to the nearest integer, halves away from zero.\<close>

definition std_round :: "real \<Rightarrow> int" where
  "std_round x = (if 0 \<le> x then \<lfloor>x + 1 / 2\<rfloor> else \<lceil>x - 1 / 2\<rceil>)"


section \<open>The sidecar: data model\<close>

text \<open>
  \<open>hue_model.h\<close> and the SDK's \<open>v1\<close> types, with the fields the synchronisation
  reads. A \<open>v1::ScalarValue\<close> is a variant of bool, 64-bit integer, double and
  string.
\<close>

datatype ScalarValue = SBool bool | SInt int | SDouble real | SString string

record v1_Channel =
  ch_externalId :: string
  ch_name :: string
  ch_hasValue :: bool
  ch_lastValue :: ScalarValue

record v1_Device =
  dev_externalId :: string
  dev_name :: string
  dev_manufacturer :: string
  dev_model :: string
  dev_firmware :: string
  dev_metaJson :: json

record DeviceState =
  lightResourceId :: string

record DeviceEntry =
  device :: v1_Device
  channels :: "v1_Channel list"
  state :: DeviceState

record v1_Room =
  room_externalId :: string
  room_name :: string
  room_zone :: string
  room_deviceExternalIds :: "string list"
  room_metaJson :: json

record v1_Group =
  group_externalId :: string
  group_name :: string
  group_zone :: string
  group_deviceExternalIds :: "string list"
  group_metaJson :: json

record v1_Scene =
  scene_externalId :: string
  scene_name :: string
  scene_scopeExternalId :: string
  scene_scopeType :: string
  scene_metaJson :: json

record Snapshot =
  devices :: "(string \<times> DeviceEntry) list"
  rooms :: "v1_Room list"
  groups :: "v1_Group list"
  scenes :: "v1_Scene list"

text \<open>
  What the sidecar sends to the host, one constructor for each \<open>send...\<close> function
  of the SDK. A send can fail: the host side is a function \<open>Sink\<close> that answers
  \<open>None\<close> when the message is delivered and \<open>Some e\<close> when the send fails with the
  error text \<open>e\<close>. The sidecar's state keeps the list of delivered messages.
\<close>

datatype Notification =
    DeviceUpdated v1_Device "v1_Channel list"
  | DeviceRemoved string
  | ChannelStateUpdated string string ScalarValue int
  | RoomUpdated v1_Room
  | RoomRemoved string
  | GroupUpdated v1_Group
  | GroupRemoved string
  | ScenesUpdated "v1_Scene list"
  | ConnectionStateChanged bool
  | FullSyncCompleted
  | ErrorMessage string

type_synonym Sink = "Notification \<Rightarrow> string option"

record HueSidecar =
  m_hasBootstrap :: bool
  m_connected_ipc :: bool
  m_devices :: "(string \<times> DeviceEntry) list"
  m_lightResourceByDevice :: "(string \<times> string) list"
  m_discoveryResourceId :: string
  m_knownRooms :: "string list"
  m_knownGroups :: "string list"
  m_pollIntervalMs :: int
  m_retryIntervalMs :: int
  m_nextPollDueMs :: int
  sent :: "Notification list"

definition send :: "Sink \<Rightarrow> Notification \<Rightarrow> HueSidecar \<Rightarrow> HueSidecar \<times> string option" where
  "send sink n st = (case sink n of
       None \<Rightarrow> (st\<lparr>sent := sent st @ [n]\<rparr>, None)
     | Some e \<Rightarrow> (st, Some e))"


section \<open>The sidecar: building and publishing a snapshot\<close>

text \<open>
  \<open>buildSnapshot\<close> (\<open>hue_model.cpp\<close>) turns the twelve resource arrays of one poll
  into a \<open>Snapshot\<close>. Its last loop, over the scene array, is translated line by
  line. The loops before it (devices and their channels, rooms, zones; lines 532 to
  818) do not read or write \<open>snapshot.scenes\<close>; they are the parameter \<open>derive\<close>.
\<close>

record ResourceArrays =
  deviceData :: "json list"
  lightData :: "json list"
  motionData :: "json list"
  tamperData :: "json list"
  temperatureData :: "json list"
  lightLevelData :: "json list"
  devicePowerData :: "json list"
  buttonData :: "json list"
  zigbeeConnectivityData :: "json list"
  roomData :: "json list"
  zoneData :: "json list"
  sceneData :: "json list"

fun buildSnapshot_scenes :: "json list \<Rightarrow> v1_Scene list" where
  "buildSnapshot_scenes [] = []"
| "buildSnapshot_scenes (entry # rest) =
     (if \<not> isObject entry then buildSnapshot_scenes rest
      else
        let sceneObj = toObject entry;
            grp = toObject (jvalue sceneObj ''group'');
            scene = \<lparr> scene_externalId = toString (jvalue sceneObj ''id''),
                      scene_name = toString (jvalue (toObject (jvalue sceneObj ''metadata'')) ''name''),
                      scene_scopeExternalId = toString (jvalue grp ''rid''),
                      scene_scopeType = toString (jvalue grp ''rtype''),
                      scene_metaJson = JObject sceneObj \<rparr>
        in if scene_externalId scene \<noteq> [] then scene # buildSnapshot_scenes rest
           else buildSnapshot_scenes rest)"

definition buildSnapshot :: "(ResourceArrays \<Rightarrow> Snapshot) \<Rightarrow> ResourceArrays \<Rightarrow> Snapshot" where
  "buildSnapshot derive arrays = (derive arrays)\<lparr>scenes := buildSnapshot_scenes (sceneData arrays)\<rparr>"

text \<open>
  \<open>HueSidecar::publishSnapshot\<close>, loop by loop. Each function returns the state and
  \<open>Some e\<close> if a send failed (the source then returns \<open>false\<close> at once, leaving
  \<open>m_devices\<close>, \<open>m_knownRooms\<close> and \<open>m_knownGroups\<close> as they were). \<open>ts\<close> is the one
  reading of the clock taken before the device loop.
\<close>

fun publishSnapshot_removed :: "Sink \<Rightarrow> Snapshot \<Rightarrow> (string \<times> DeviceEntry) list \<Rightarrow> HueSidecar
    \<Rightarrow> HueSidecar \<times> string option" where
  "publishSnapshot_removed sink snapshot [] st = (st, None)"
| "publishSnapshot_removed sink snapshot ((k, e) # rest) st =
     (if hcontains (devices snapshot) k then publishSnapshot_removed sink snapshot rest st
      else case send sink (DeviceRemoved k) st of
             (st', Some err) \<Rightarrow> (st', Some err)
           | (st', None) \<Rightarrow>
               publishSnapshot_removed sink snapshot rest
                 (st'\<lparr>m_lightResourceByDevice := AList.delete k (m_lightResourceByDevice st')\<rparr>))"

fun publishSnapshot_channels :: "Sink \<Rightarrow> int \<Rightarrow> string \<Rightarrow> v1_Channel list \<Rightarrow> HueSidecar
    \<Rightarrow> HueSidecar \<times> string option" where
  "publishSnapshot_channels sink ts devId [] st = (st, None)"
| "publishSnapshot_channels sink ts devId (c # cs) st =
     (if \<not> ch_hasValue c then publishSnapshot_channels sink ts devId cs st
      else case send sink (ChannelStateUpdated devId (ch_externalId c) (ch_lastValue c) ts) st of
             (st', Some err) \<Rightarrow> (st', Some err)
           | (st', None) \<Rightarrow> publishSnapshot_channels sink ts devId cs st')"

fun publishSnapshot_devices :: "Sink \<Rightarrow> int \<Rightarrow> (string \<times> DeviceEntry) list \<Rightarrow> (string \<times> string) list
    \<Rightarrow> HueSidecar \<Rightarrow> (HueSidecar \<times> (string \<times> string) list) \<times> string option" where
  "publishSnapshot_devices sink ts [] nextLightByDevice st = ((st, nextLightByDevice), None)"
| "publishSnapshot_devices sink ts ((deviceExternalId, entry) # rest) nextLightByDevice st =
     (case send sink (DeviceUpdated (device entry) (channels entry)) st of
        (st1, Some err) \<Rightarrow> ((st1, nextLightByDevice), Some err)
      | (st1, None) \<Rightarrow>
          (case publishSnapshot_channels sink ts (dev_externalId (device entry)) (channels entry) st1 of
             (st2, Some err) \<Rightarrow> ((st2, nextLightByDevice), Some err)
           | (st2, None) \<Rightarrow>
               publishSnapshot_devices sink ts rest
                 (if lightResourceId (state entry) \<noteq> []
                  then AList.update deviceExternalId (lightResourceId (state entry)) nextLightByDevice
                  else nextLightByDevice) st2))"

fun publishSnapshot_rooms :: "Sink \<Rightarrow> v1_Room list \<Rightarrow> string list \<Rightarrow> HueSidecar
    \<Rightarrow> (HueSidecar \<times> string list) \<times> string option" where
  "publishSnapshot_rooms sink [] nextRooms st = ((st, nextRooms), None)"
| "publishSnapshot_rooms sink (room # rest) nextRooms st =
     (if room_externalId room = [] then publishSnapshot_rooms sink rest nextRooms st
      else case send sink (RoomUpdated room) st of
             (st', Some err) \<Rightarrow> ((st', List.insert (room_externalId room) nextRooms), Some err)
           | (st', None) \<Rightarrow> publishSnapshot_rooms sink rest (List.insert (room_externalId room) nextRooms) st')"

fun publishSnapshot_oldRooms :: "Sink \<Rightarrow> string list \<Rightarrow> string list \<Rightarrow> HueSidecar
    \<Rightarrow> HueSidecar \<times> string option" where
  "publishSnapshot_oldRooms sink nextRooms [] st = (st, None)"
| "publishSnapshot_oldRooms sink nextRooms (oldRoom # rest) st =
     (if oldRoom \<in> set nextRooms then publishSnapshot_oldRooms sink nextRooms rest st
      else case send sink (RoomRemoved oldRoom) st of
             (st', Some err) \<Rightarrow> (st', Some err)
           | (st', None) \<Rightarrow> publishSnapshot_oldRooms sink nextRooms rest st')"

fun publishSnapshot_groups :: "Sink \<Rightarrow> v1_Group list \<Rightarrow> string list \<Rightarrow> HueSidecar
    \<Rightarrow> (HueSidecar \<times> string list) \<times> string option" where
  "publishSnapshot_groups sink [] nextGroups st = ((st, nextGroups), None)"
| "publishSnapshot_groups sink (grp # rest) nextGroups st =
     (if group_externalId grp = [] then publishSnapshot_groups sink rest nextGroups st
      else case send sink (GroupUpdated grp) st of
             (st', Some err) \<Rightarrow> ((st', List.insert (group_externalId grp) nextGroups), Some err)
           | (st', None) \<Rightarrow> publishSnapshot_groups sink rest (List.insert (group_externalId grp) nextGroups) st')"

fun publishSnapshot_oldGroups :: "Sink \<Rightarrow> string list \<Rightarrow> string list \<Rightarrow> HueSidecar
    \<Rightarrow> HueSidecar \<times> string option" where
  "publishSnapshot_oldGroups sink nextGroups [] st = (st, None)"
| "publishSnapshot_oldGroups sink nextGroups (oldGroup # rest) st =
     (if oldGroup \<in> set nextGroups then publishSnapshot_oldGroups sink nextGroups rest st
      else case send sink (GroupRemoved oldGroup) st of
             (st', Some err) \<Rightarrow> (st', Some err)
           | (st', None) \<Rightarrow> publishSnapshot_oldGroups sink nextGroups rest st')"

definition publishSnapshot :: "Sink \<Rightarrow> int \<Rightarrow> Snapshot \<Rightarrow> HueSidecar \<Rightarrow> HueSidecar \<times> string option" where
  "publishSnapshot sink ts snapshot st0 =
     (case publishSnapshot_removed sink snapshot (m_devices st0) st0 of
        (st1, Some err) \<Rightarrow> (st1, Some err)
      | (st1, None) \<Rightarrow>
     (case publishSnapshot_devices sink ts (devices snapshot) [] st1 of
        ((st2, nextLightByDevice), Some err) \<Rightarrow> (st2, Some err)
      | ((st2, nextLightByDevice), None) \<Rightarrow>
     (case publishSnapshot_rooms sink (rooms snapshot) [] st2 of
        ((st3, nextRooms), Some err) \<Rightarrow> (st3, Some err)
      | ((st3, nextRooms), None) \<Rightarrow>
     (case publishSnapshot_oldRooms sink nextRooms (m_knownRooms st3) st3 of
        (st4, Some err) \<Rightarrow> (st4, Some err)
      | (st4, None) \<Rightarrow>
     (case publishSnapshot_groups sink (groups snapshot) [] st4 of
        ((st5, nextGroups), Some err) \<Rightarrow> (st5, Some err)
      | ((st5, nextGroups), None) \<Rightarrow>
     (case publishSnapshot_oldGroups sink nextGroups (m_knownGroups st5) st5 of
        (st6, Some err) \<Rightarrow> (st6, Some err)
      | (st6, None) \<Rightarrow>
     (case send sink (ScenesUpdated (scenes snapshot)) st6 of
        (st7, Some err) \<Rightarrow> (st7, Some err)
      | (st7, None) \<Rightarrow>
          (st7\<lparr>m_devices := devices snapshot,
                m_lightResourceByDevice := nextLightByDevice,
                m_knownRooms := nextRooms,
                m_knownGroups := nextGroups\<rparr>, None))))))))"


text \<open>
  The messages one pass of \<open>publishSnapshot\<close> has to send, in the order of its
  loops; they serve to state what a pass delivers.
\<close>

definition removedKeys :: "HueSidecar \<Rightarrow> Snapshot \<Rightarrow> string list" where
  "removedKeys st snapshot = filter (\<lambda>k. \<not> hcontains (devices snapshot) k) (map fst (m_devices st))"

definition channelNotifications :: "int \<Rightarrow> string \<Rightarrow> v1_Channel list \<Rightarrow> Notification list" where
  "channelNotifications ts devId chans =
     map (\<lambda>c. ChannelStateUpdated devId (ch_externalId c) (ch_lastValue c) ts) (filter ch_hasValue chans)"

definition deviceNotifications :: "int \<Rightarrow> (string \<times> DeviceEntry) list \<Rightarrow> Notification list" where
  "deviceNotifications ts entries =
     concat (map (\<lambda>(k, e). DeviceUpdated (device e) (channels e)
                              # channelNotifications ts (dev_externalId (device e)) (channels e)) entries)"

definition roomNotifications :: "v1_Room list \<Rightarrow> Notification list" where
  "roomNotifications rs = map RoomUpdated (filter (\<lambda>r. room_externalId r \<noteq> []) rs)"

definition groupNotifications :: "v1_Group list \<Rightarrow> Notification list" where
  "groupNotifications gs = map GroupUpdated (filter (\<lambda>g. group_externalId g \<noteq> []) gs)"

definition idSet :: "string list \<Rightarrow> string list \<Rightarrow> string list" where
  "idSet ids acc = foldl (\<lambda>a x. if x = [] then a else List.insert x a) acc ids"

definition nextLights :: "(string \<times> DeviceEntry) list \<Rightarrow> (string \<times> string) list \<Rightarrow> (string \<times> string) list" where
  "nextLights entries acc =
     foldl (\<lambda>a (k, e). if lightResourceId (state e) \<noteq> [] then AList.update k (lightResourceId (state e)) a else a)
       acc entries"

definition updateNotifications :: "int \<Rightarrow> Snapshot \<Rightarrow> Notification list" where
  "updateNotifications ts snapshot =
     deviceNotifications ts (devices snapshot) @ roomNotifications (rooms snapshot)
       @ groupNotifications (groups snapshot) @ [ScenesUpdated (scenes snapshot)]"

fun isDeviceRemoved :: "Notification \<Rightarrow> bool" where
  "isDeviceRemoved (DeviceRemoved k) = True"
| "isDeviceRemoved _ = False"

fun isDeviceUpdated :: "Notification \<Rightarrow> bool" where
  "isDeviceUpdated (DeviceUpdated d cs) = True"
| "isDeviceUpdated _ = False"

fun isRemoval :: "Notification \<Rightarrow> bool" where
  "isRemoval (DeviceRemoved k) = True"
| "isRemoval (RoomRemoved k) = True"
| "isRemoval (GroupRemoved k) = True"
| "isRemoval _ = False"

fun channelStateDevice :: "Notification \<Rightarrow> string option" where
  "channelStateDevice (ChannelStateUpdated d c v ts) = Some d"
| "channelStateDevice _ = None"

section \<open>The sidecar: polling the bridge\<close>

text \<open>
  The collaborators of the sidecar are gathered in \<open>Env\<close>: \<open>env_fetch\<close> is the outcome
  of \<open>fetchResourceArray\<close> for a resource type (\<open>Inr\<close> the \<open>data\<close> array, \<open>Inl\<close> the
  error text the function would store), \<open>env_put\<close> is \<open>HttpClient::putJsonAsync\<close>
  (\<open>None\<close> when the request was handed over, \<open>Some e\<close> when it could not be sent),
  \<open>env_sink\<close> the host and \<open>env_now\<close> the clock.
\<close>

record ConnectionSettings =
  host :: string
  ip :: string
  appKey :: string

record Env =
  env_settings :: ConnectionSettings
  env_fetch :: "string \<Rightarrow> string + json list"
  env_put :: "string \<Rightarrow> QJsonObject \<Rightarrow> string option"
  env_sink :: Sink
  env_now :: int

definition effectiveHost :: "ConnectionSettings \<Rightarrow> string" where
  "effectiveHost settings = (if trimmed (host settings) \<noteq> [] then trimmed (host settings) else trimmed (ip settings))"

definition setConnectionState :: "Sink \<Rightarrow> bool \<Rightarrow> HueSidecar \<Rightarrow> HueSidecar" where
  "setConnectionState sink isConnected st =
     (if m_connected_ipc st = isConnected then st
      else fst (send sink (ConnectionStateChanged isConnected) (st\<lparr>m_connected_ipc := isConnected\<rparr>)))"

fun firstResourceId :: "json list \<Rightarrow> string" where
  "firstResourceId [] = []"
| "firstResourceId (entry # rest) =
     (if \<not> isObject entry then firstResourceId rest
      else if trimmed (toString (jvalue (toObject entry) ''id'')) \<noteq> []
           then trimmed (toString (jvalue (toObject entry) ''id''))
           else firstResourceId rest)"

text \<open>
  \<open>HueSidecar::pollBridge\<close>. The result is the state and \<open>None\<close> for \<open>true\<close>,
  \<open>Some e\<close> for \<open>false\<close> with the error text \<open>e\<close>. A fetch made with a null error
  pointer keeps no error text; its failure is replaced by the empty array.
\<close>

definition orEmpty :: "string + json list \<Rightarrow> json list" where
  "orEmpty r = (case r of Inl e \<Rightarrow> [] | Inr xs \<Rightarrow> xs)"

definition pollBridge :: "(ResourceArrays \<Rightarrow> Snapshot) \<Rightarrow> Env \<Rightarrow> HueSidecar \<Rightarrow> HueSidecar \<times> string option" where
  "pollBridge derive env st =
     (if effectiveHost (env_settings env) = [] then (st, Some ''Bridge host is empty'')
      else if trimmed (appKey (env_settings env)) = [] then (st, Some ''Hue application key missing'')
      else case env_fetch env ''device'' of Inl e \<Rightarrow> (st, Some e) | Inr deviceArr \<Rightarrow>
      (case env_fetch env ''light'' of Inl e \<Rightarrow> (st, Some e) | Inr lightArr \<Rightarrow>
      (let motionArr = orEmpty (env_fetch env ''motion'');
           tamperArr = orEmpty (env_fetch env ''tamper'');
           temperatureArr = orEmpty (env_fetch env ''temperature'');
           lightLevelArr = orEmpty (env_fetch env ''light_level'');
           devicePowerArr = orEmpty (env_fetch env ''device_power'');
           buttonArr = orEmpty (env_fetch env ''button'');
           zigbeeConnectivityArr = orEmpty (env_fetch env ''zigbee_connectivity'')
       in
      (case env_fetch env ''room'' of Inl e \<Rightarrow> (st, Some e) | Inr roomArr \<Rightarrow>
      (case env_fetch env ''zone'' of Inl e \<Rightarrow> (st, Some e) | Inr zoneArr \<Rightarrow>
      (case env_fetch env ''scene'' of Inl e \<Rightarrow> (st, Some e) | Inr sceneArr \<Rightarrow>
      (let st1 = (case env_fetch env ''zigbee_device_discovery'' of
                    Inl e \<Rightarrow> st
                  | Inr discoveryArr \<Rightarrow> st\<lparr>m_discoveryResourceId := firstResourceId discoveryArr\<rparr>);
           snapshot = buildSnapshot derive
             \<lparr> deviceData = deviceArr, lightData = lightArr, motionData = motionArr,
               tamperData = tamperArr, temperatureData = temperatureArr,
               lightLevelData = lightLevelArr, devicePowerData = devicePowerArr,
               buttonData = buttonArr, zigbeeConnectivityData = zigbeeConnectivityArr,
               roomData = roomArr, zoneData = zoneArr, sceneData = sceneArr \<rparr>
       in case publishSnapshot (env_sink env) (env_now env) snapshot st1 of
            (st2, Some e) \<Rightarrow> (st2, Some e)
          | (st2, None) \<Rightarrow>
              (fst (send (env_sink env) FullSyncCompleted (setConnectionState (env_sink env) True st2)), None))))))))"

text \<open>
  \<open>HueSidecar::tick\<close>: a poll that fails is reported to the host, and the next poll
  is due after the retry interval.
\<close>

definition tick :: "(ResourceArrays \<Rightarrow> Snapshot) \<Rightarrow> Env \<Rightarrow> HueSidecar \<Rightarrow> HueSidecar" where
  "tick derive env st =
     (if \<not> m_hasBootstrap st then st
      else if m_nextPollDueMs st > env_now env then st
      else case pollBridge derive env st of
             (st1, Some err) \<Rightarrow>
               (let st2 = setConnectionState (env_sink env) False st1;
                    st3 = (if err \<noteq> [] then fst (send (env_sink env) (ErrorMessage err) st2) else st2)
                in st3\<lparr>m_nextPollDueMs := env_now env + max 1000 (m_retryIntervalMs st3)\<rparr>)
           | (st1, None) \<Rightarrow> st1\<lparr>m_nextPollDueMs := env_now env + max 1000 (m_pollIntervalMs st1)\<rparr>)"

text \<open>
  The resource types whose fetch failure ends \<open>pollBridge\<close>, in the order they are
  fetched, with the error text of the first one that fails; and the types fetched
  with a null error pointer.
\<close>

definition coreTypes :: "string list" where
  "coreTypes = [''device'', ''light'', ''room'', ''zone'', ''scene'']"

definition secondaryTypes :: "string list" where
  "secondaryTypes = [''motion'', ''tamper'', ''temperature'', ''light_level'', ''device_power'',
                     ''button'', ''zigbee_connectivity'']"

fun firstFailure :: "(string \<Rightarrow> string + json list) \<Rightarrow> string list \<Rightarrow> string option" where
  "firstFailure fetch [] = None"
| "firstFailure fetch (ty # rest) = (case fetch ty of Inl e \<Rightarrow> Some e | Inr xs \<Rightarrow> firstFailure fetch rest)"

section \<open>The sidecar: channel commands\<close>

text \<open>
  \<open>scalarAsDouble\<close>, \<open>scalarAsBool\<close>, \<open>rgbToXy\<close> and \<open>buildLightCommandPayload\<close> of
  \<open>hue_model.cpp\<close>. The payload is the JSON object before it is written out as
  compact text (keys in the sorted order \<open>QJsonObject\<close> keeps); a failure is \<open>Inl\<close> with
  the error text. \<open>extractRgb\<close>, which parses a colour from the request's text or JSON
  value, is a parameter.
\<close>

record ChannelInvokeRequest =
  cmdId :: nat
  deviceExternalId :: string
  channelExternalId :: string
  hasScalarValue :: bool
  scalarValue :: ScalarValue
  valueJson :: string

fun scalarAsDouble :: "ScalarValue \<Rightarrow> real option" where
  "scalarAsDouble (SDouble d) = Some d"
| "scalarAsDouble (SInt i) = Some (real_of_int i)"
| "scalarAsDouble (SBool b) = Some (if b then 1 else 0)"
| "scalarAsDouble (SString s) = None"

fun scalarAsBool :: "ScalarValue \<Rightarrow> bool option" where
  "scalarAsBool (SBool b) = Some b"
| "scalarAsBool (SInt i) = Some (i \<noteq> 0)"
| "scalarAsBool (SDouble d) = Some (d \<noteq> 0)"
| "scalarAsBool (SString s) =
     (let t = toLower (trimmed s) in
      if t = ''1'' \<or> t = ''true'' \<or> t = ''on'' then Some True
      else if t = ''0'' \<or> t = ''false'' \<or> t = ''off'' then Some False
      else None)"

definition gamma :: "real \<Rightarrow> real" where
  "gamma v = (if v \<le> 0.04045 then v / 12.92 else ((v + 0.055) / 1.055) powr 2.4)"

definition rgbToXy :: "real \<Rightarrow> real \<Rightarrow> real \<Rightarrow> real \<times> real" where
  "rgbToXy r01 g01 b01 =
     (let r = gamma (clamp r01 0 1);
          g = gamma (clamp g01 0 1);
          b = gamma (clamp b01 0 1);
          X = r * 0.664511 + g * 0.154324 + b * 0.162028;
          Y = r * 0.283881 + g * 0.668433 + b * 0.047685;
          Z = r * 0.000088 + g * 0.072310 + b * 0.986039;
          total = X + Y + Z
      in if total \<le> 0 then (0, 0) else (clamp (X / total) 0 1, clamp (Y / total) 0 1))"

definition buildLightCommandPayload ::
    "(ChannelInvokeRequest \<Rightarrow> (real \<times> real \<times> real) option) \<Rightarrow> string \<Rightarrow> ChannelInvokeRequest
      \<Rightarrow> string + QJsonObject" where
  "buildLightCommandPayload extractRgb channelId request =
     (if channelId = ''on'' then
        (if \<not> hasScalarValue request then Inl ''Expected boolean value''
         else case scalarAsBool (scalarValue request) of
                None \<Rightarrow> Inl ''Invalid boolean value''
              | Some v \<Rightarrow> Inr [(''on'', JObject [(''on'', JBool v)])])
      else if channelId = ''bri'' then
        (if \<not> hasScalarValue request then Inl ''Expected numeric brightness''
         else case scalarAsDouble (scalarValue request) of
                None \<Rightarrow> Inl ''Invalid brightness value''
              | Some v \<Rightarrow>
                  (let brightness = clamp v 0 100
                   in Inr [(''dimming'', JObject [(''brightness'', JNumber brightness)]),
                           (''on'', JObject [(''on'', JBool (brightness > 0))])]))
      else if channelId = ''ct'' then
        (if \<not> hasScalarValue request then Inl ''Expected numeric color temperature''
         else case scalarAsDouble (scalarValue request) of
                None \<Rightarrow> Inl ''Invalid color temperature value''
              | Some v \<Rightarrow>
                  (let mired = std_round (clamp v 100 1000)
                   in Inr [(''color_temperature'', JObject [(''mirek'', JNumber (real_of_int mired))])]))
      else if channelId = ''color'' then
        (case extractRgb request of
           None \<Rightarrow> Inl ''Invalid color payload''
         | Some (r, g, b) \<Rightarrow>
             (case rgbToXy r g b of (x, y) \<Rightarrow>
                Inr [(''color'', JObject [(''xy'', JObject [(''x'', JNumber x), (''y'', JNumber y)])])]))
      else Inl ''Unsupported channel'')"

datatype CmdStatus = Success | Failure | InvalidArgument | TemporarilyOffline | NotImplemented

record CmdResponse =
  resp_id :: nat
  resp_status :: CmdStatus
  resp_error :: string
  resp_finalValue :: "ScalarValue option"
  resp_tsMs :: int

definition failureResponse :: "int \<Rightarrow> nat \<Rightarrow> CmdStatus \<Rightarrow> string \<Rightarrow> CmdResponse" where
  "failureResponse now cid status err =
     \<lparr> resp_id = cid, resp_status = status, resp_error = err, resp_finalValue = None, resp_tsMs = now \<rparr>"

definition successResponse :: "int \<Rightarrow> nat \<Rightarrow> CmdResponse" where
  "successResponse now cid =
     \<lparr> resp_id = cid, resp_status = Success, resp_error = [], resp_finalValue = None, resp_tsMs = now \<rparr>"

text \<open>
  \<open>HueSidecar::onChannelInvoke\<close>. The results of the \<open>sendChannelStateUpdated\<close> calls
  at its end are not looked at by the source, so a failed one is dropped.
\<close>

definition onChannelInvoke ::
    "(ChannelInvokeRequest \<Rightarrow> (real \<times> real \<times> real) option) \<Rightarrow> (ResourceArrays \<Rightarrow> Snapshot) \<Rightarrow> Env
      \<Rightarrow> ChannelInvokeRequest \<Rightarrow> HueSidecar \<Rightarrow> CmdResponse \<times> HueSidecar" where
  "onChannelInvoke extractRgb derive env request st0 =
     (if \<not> m_hasBootstrap st0
      then (failureResponse (env_now env) (cmdId request) TemporarilyOffline ''Adapter not bootstrapped'', st0)
      else
        let st = (if hvalue (m_lightResourceByDevice st0) (deviceExternalId request) [] = []
                  then fst (pollBridge derive env st0) else st0);
            lightId = hvalue (m_lightResourceByDevice st) (deviceExternalId request) []
        in if lightId = []
           then (failureResponse (env_now env) (cmdId request) InvalidArgument ''No Hue light resource for device'', st)
           else case buildLightCommandPayload extractRgb (channelExternalId request) request of
                  Inl payloadError \<Rightarrow>
                    (failureResponse (env_now env) (cmdId request) InvalidArgument payloadError, st)
                | Inr payload \<Rightarrow>
                   (case env_put env (''/clip/v2/resource/light/'' @ lightId) payload of
                      Some asyncError \<Rightarrow>
                        (failureResponse (env_now env) (cmdId request) TemporarilyOffline
                           (if asyncError = [] then ''Hue command could not be sent'' else asyncError), st)
                    | None \<Rightarrow>
                       (let resp = (successResponse (env_now env) (cmdId request))
                              \<lparr>resp_finalValue := (if hasScalarValue request then Some (scalarValue request) else None)\<rparr>;
                            ch = channelExternalId request;
                            dev = deviceExternalId request
                        in if ch = ''on'' \<and> hasScalarValue request then
                             (case scalarAsBool (scalarValue request) of
                                Some on \<Rightarrow> (resp, fst (send (env_sink env) (ChannelStateUpdated dev ch (SBool on) (env_now env)) st))
                              | None \<Rightarrow> (resp, st))
                           else if (ch = ''bri'' \<or> ch = ''ct'') \<and> hasScalarValue request then
                             (case scalarAsDouble (scalarValue request) of
                                Some v \<Rightarrow>
                                  (if ch = ''ct''
                                   then (resp, fst (send (env_sink env) (ChannelStateUpdated dev ch (SInt (std_round v)) (env_now env)) st))
                                   else
                                     let brightness = clamp v 0 100;
                                         st1 = fst (send (env_sink env) (ChannelStateUpdated dev ch (SDouble brightness) (env_now env)) st);
                                         st2 = fst (send (env_sink env) (ChannelStateUpdated dev ''on'' (SBool (brightness > 0)) (env_now env)) st1)
                                     in (resp, st2))
                              | None \<Rightarrow> (resp, st))
                           else (resp, st))))"


section \<open>The legacy adapter: state\<close>

text \<open>
  \<open>HueAdapter\<close> (\<open>hueadapter.cpp\<close>) is driven by callbacks on one thread: every
  handler is a function from the adapter's state to its next state. The record holds
  the members the handlers below read and write. Qt signals go to the list
  \<open>emitted\<close>, requests handed to the network access manager to \<open>requests\<close>. A
  \<open>QSet\<close> that is only tested and counted is a finite set, one that is iterated is a
  duplicate-free list.
\<close>

datatype ButtonEventCode =
    NoneCode | InitialPress | LongPress | Repeat | ShortPressRelease | LongPressRelease
  | DoublePress | TriplePress | QuadruplePress | QuintuplePress

type_synonym Color = "real \<times> real \<times> real"

datatype QVariant = QBool bool | QInt int | QDouble real | QButton ButtonEventCode | QColor Color

record Channel =
  channel_id :: string
  channel_name :: string
  minValue :: real
  maxValue :: real

record Device =
  device_id :: string
  device_name :: string
  device_meta :: QJsonObject

datatype SceneState = Unknown | Inactive | ActiveStatic | ActiveDynamic

record Scene =
  sc_id :: string
  sc_name :: string
  sc_description :: string
  sc_image :: string
  sc_state :: SceneState
  sc_scopeId :: string
  sc_scopeType :: string
  sc_supportsDynamic :: bool

record AdapterCmdResponse =
  cr_id :: nat
  cr_tsMs :: int
  cr_status :: CmdStatus
  cr_error :: string
  cr_finalValue :: QVariant

datatype Signal =
    deviceUpdated Device "Channel list"
  | deviceRemoved string
  | channelStateUpdated string string QVariant int
  | connectionStateChanged bool
  | scenesUpdated "Scene list"
  | fullSyncCompleted
  | cmdResult AdapterCmdResponse

datatype Request =
    GetSnapshot string
  | GetSnapshotLater string int
  | GetDevice string
  | PutResource string string QJsonObject

datatype TimerState = NoTimer | TimerStopped | TimerRunning int

record ButtonMultiPressTracker =
  tr_count :: int
  tr_lastTs :: int
  tr_timer :: TimerState
  tr_deviceExtId :: string
  tr_channelExtId :: string

type_synonym QPointF = "real \<times> real"

record HueGamut =
  p1 :: QPointF
  p2 :: QPointF
  p3 :: QPointF

record HueChannelBinding =
  resourceId :: string
  resourceType :: string

record HueAdapter =
  m_nam :: bool
  token :: string
  m_connected :: bool
  m_stopping :: bool
  m_v2SnapshotByType :: "(string \<times> json list) list"
  m_v2SnapshotPending :: int
  m_v2BootstrapDone :: bool
  m_v2SnapshotFailedThisCycle :: bool
  m_pendingV2DeviceFetch :: "string fset"
  m_pendingV2ResourceTypes :: "string fset"
  m_v2ResourceRetryCount :: "(string \<times> int) list"
  m_failedV2DeviceFetch :: "string fset"
  m_v2DeviceFetchQueue :: "string list"
  m_v2DeviceFetchTimer :: bool
  m_v2Devices :: "(string \<times> Device) list"
  m_v2DeviceInfoCache :: "(string \<times> Device) list"
  m_v2DeviceChannels :: "(string \<times> Channel list) list"
  m_knownDeviceExternalIds :: "string list"
  m_v2Scenes :: "(string \<times> Scene) list"
  m_sceneSnapshotDirty :: bool
  m_buttonMultiPress :: "(string \<times> ButtonMultiPressTracker) list"
  m_gamutByLightId :: "(string \<times> HueGamut) list"
  m_channelBindings :: "(string \<times> HueChannelBinding) list"
  emitted :: "Signal list"
  requests :: "Request list"

definition kMaxConcurrentV2DeviceFetch :: nat where "kMaxConcurrentV2DeviceFetch = 4"
definition kButtonMultiPressWindowMs :: int where "kButtonMultiPressWindowMs = 1200"
definition kButtonMultiPressResetGapMs :: int where "kButtonMultiPressResetGapMs = 500"
definition kMaxV2ResourceSnapshotRetries :: int where "kMaxV2ResourceSnapshotRetries = 3"
definition kV2ResourceRetryBaseDelayMs :: int where "kV2ResourceRetryBaseDelayMs = 1000"

definition channelBindingKey :: "string \<Rightarrow> string \<Rightarrow> string" where
  "channelBindingKey deviceExtId channelExtId = deviceExtId @ ''|'' @ channelExtId"

definition emit :: "Signal \<Rightarrow> HueAdapter \<Rightarrow> HueAdapter" where
  "emit sig s = s\<lparr>emitted := emitted s @ [sig]\<rparr>"

definition setConnected :: "bool \<Rightarrow> HueAdapter \<Rightarrow> HueAdapter" where
  "setConnected c s = (if m_connected s = c then s else emit (connectionStateChanged c) (s\<lparr>m_connected := c\<rparr>))"

section \<open>The legacy adapter: lazy device-metadata fetches\<close>

text \<open>
  \<open>startV2DeviceFetch\<close>, \<open>fetchV2DeviceResource\<close> and
  \<open>startNextQueuedV2DeviceFetch\<close>. The \<open>while\<close> loop of the last one is the recursion
  of \<open>startNextQueued_loop\<close> over the queue; its result says whether a fetch was
  started.
\<close>

definition startV2DeviceFetch :: "string \<Rightarrow> HueAdapter \<Rightarrow> bool \<times> HueAdapter" where
  "startV2DeviceFetch deviceId s =
     (if \<not> m_nam s \<or> deviceId = [] then (False, s)
      else if deviceId |\<in>| m_failedV2DeviceFetch s then (False, s)
      else if token s = [] then (False, s)
      else (True, s\<lparr>m_pendingV2DeviceFetch := finsert deviceId (m_pendingV2DeviceFetch s),
                     requests := requests s @ [GetDevice deviceId]\<rparr>))"

definition fetchV2DeviceResource :: "string \<Rightarrow> HueAdapter \<Rightarrow> HueAdapter" where
  "fetchV2DeviceResource deviceId s =
     (if \<not> m_nam s \<or> deviceId = [] then s
      else if deviceId |\<in>| m_failedV2DeviceFetch s then s
      else if deviceId |\<in>| m_pendingV2DeviceFetch s then s
      else if deviceId \<in> set (m_v2DeviceFetchQueue s) then s
      else if fcard (m_pendingV2DeviceFetch s) \<ge> kMaxConcurrentV2DeviceFetch
           then s\<lparr>m_v2DeviceFetchQueue := m_v2DeviceFetchQueue s @ [deviceId]\<rparr>
      else snd (startV2DeviceFetch deviceId s))"

fun startNextQueued_loop :: "string list \<Rightarrow> HueAdapter \<Rightarrow> bool \<times> HueAdapter" where
  "startNextQueued_loop [] s = (False, s)"
| "startNextQueued_loop (deviceId # rest) s =
     (if \<not> fcard (m_pendingV2DeviceFetch s) < kMaxConcurrentV2DeviceFetch then (False, s)
      else
        let s1 = s\<lparr>m_v2DeviceFetchQueue := rest\<rparr>
        in if deviceId = [] then startNextQueued_loop rest s1
           else if deviceId |\<in>| m_failedV2DeviceFetch s1 then startNextQueued_loop rest s1
           else if deviceId |\<in>| m_pendingV2DeviceFetch s1 then startNextQueued_loop rest s1
           else startV2DeviceFetch deviceId s1)"

definition startNextQueuedV2DeviceFetch :: "HueAdapter \<Rightarrow> HueAdapter" where
  "startNextQueuedV2DeviceFetch s =
     (if \<not> m_nam s then s
      else case startNextQueued_loop (m_v2DeviceFetchQueue s) s of
             (False, s1) \<Rightarrow> s1
           | (True, s1) \<Rightarrow>
               (if m_v2DeviceFetchQueue s1 \<noteq> []
                   \<and> fcard (m_pendingV2DeviceFetch s1) < kMaxConcurrentV2DeviceFetch
                   \<and> \<not> m_v2DeviceFetchTimer s1
                then s1\<lparr>m_v2DeviceFetchTimer := True\<rparr> else s1))"

text \<open>
  The single-shot timer \<open>m_v2DeviceFetchTimer\<close> (20 ms) is connected to
  \<open>startNextQueuedV2DeviceFetch\<close>; when it fires it is no longer active.
\<close>

definition v2DeviceFetchTimer_timeout :: "HueAdapter \<Rightarrow> HueAdapter" where
  "v2DeviceFetchTimer_timeout s = startNextQueuedV2DeviceFetch (s\<lparr>m_v2DeviceFetchTimer := False\<rparr>)"

section \<open>The legacy adapter: the snapshot cycle\<close>

text \<open>
  \<open>requestV2ResourceSnapshot\<close>: with a delay the request is left to a single-shot
  timer (\<open>GetSnapshotLater\<close>), whose expiry runs \<open>sendRequest\<close>.
\<close>

definition sendRequest :: "string \<Rightarrow> HueAdapter \<Rightarrow> HueAdapter" where
  "sendRequest resourceTy s =
     (if \<not> m_nam s then s
      else if resourceTy |\<in>| m_pendingV2ResourceTypes s then s
      else if token s = [] then s
      else s\<lparr>m_pendingV2ResourceTypes := finsert resourceTy (m_pendingV2ResourceTypes s),
             requests := requests s @ [GetSnapshot resourceTy]\<rparr>)"

definition requestV2ResourceSnapshot :: "string \<Rightarrow> int \<Rightarrow> HueAdapter \<Rightarrow> HueAdapter" where
  "requestV2ResourceSnapshot resourceTy delayMs s =
     (if resourceTy = [] then s
      else if delayMs > 0 then s\<lparr>requests := requests s @ [GetSnapshotLater resourceTy delayMs]\<rparr>
      else sendRequest resourceTy s)"

definition snapshotResources :: "string list" where
  "snapshotResources = [''device'', ''room'', ''zone'', ''light'', ''motion'', ''temperature'',
     ''light_level'', ''device_power'', ''button'', ''device_software_update'',
     ''zigbee_connectivity'', ''zigbee_device_discovery'', ''scene'']"

fun requestAll :: "string list \<Rightarrow> int \<Rightarrow> HueAdapter \<Rightarrow> HueAdapter" where
  "requestAll [] staggerDelay s = s"
| "requestAll (res # rest) staggerDelay s =
     requestAll rest (staggerDelay + 400)
       (requestV2ResourceSnapshot res (if res = ''button'' then staggerDelay + 1000 else staggerDelay) s)"

definition fetchV2ResourcesSnapshot :: "HueAdapter \<Rightarrow> HueAdapter" where
  "fetchV2ResourcesSnapshot s =
     (if \<not> m_nam s then s
      else if token s = [] then s
      else requestAll snapshotResources 0
             (s\<lparr>m_v2SnapshotByType := [],
                m_pendingV2DeviceFetch := {||},
                m_v2DeviceFetchQueue := [],
                m_failedV2DeviceFetch := {||},
                m_pendingV2ResourceTypes := {||},
                m_v2ResourceRetryCount := [],
                m_v2SnapshotFailedThisCycle := False,
                m_v2SnapshotPending := int (length snapshotResources),
                m_v2BootstrapDone := False\<rparr>))"

text \<open>
  \<open>finalizeV2SnapshotIfReady\<close> ends in a call of \<open>buildDevicesFromV2Snapshots\<close>, and
  is itself the last thing its callers do to the snapshot state. The rebuild is a
  function of some nine hundred lines; the guard in front of it is modelled with a
  flag: the second component of the result says whether the rebuild is entered on the
  returned state.
\<close>

definition finalizeV2SnapshotIfReady :: "HueAdapter \<Rightarrow> HueAdapter \<times> bool" where
  "finalizeV2SnapshotIfReady s =
     (if \<not> m_v2BootstrapDone s
         \<and> m_v2SnapshotPending s = 0
         \<and> m_pendingV2DeviceFetch s = {||}
         \<and> m_v2DeviceFetchQueue s = []
      then (if m_v2SnapshotFailedThisCycle s
            then (s\<lparr>m_v2BootstrapDone := True, m_v2SnapshotFailedThisCycle := False\<rparr>, False)
            else (s, True))
      else (s, False))"

text \<open>
  The error branch of \<open>onNetworkReplyFinished\<close> for a request under
  \<open>/clip/v2/resource/\<close>; \<open>resourcePath\<close> is the rest of the path. A path without a
  slash is a snapshot of a resource type, a path \<open>device/...\<close> a lazy device fetch.
\<close>

definition onNetworkReplyFinished_error :: "string \<Rightarrow> HueAdapter \<Rightarrow> HueAdapter \<times> bool" where
  "onNetworkReplyFinished_error resourcePath s0 =
     (let s = (if \<not> m_stopping s0 then setConnected False s0 else s0)
      in if CHR ''/'' \<notin> set resourcePath then
           (if resourcePath \<noteq> [] then
              (let s1 = s\<lparr>m_pendingV2ResourceTypes := m_pendingV2ResourceTypes s |-| {|resourcePath|}\<rparr>;
                   attempt = hvalue (m_v2ResourceRetryCount s1) resourcePath 0
               in if attempt < kMaxV2ResourceSnapshotRetries then
                    (let nextAttempt = attempt + 1;
                         delayMs = kV2ResourceRetryBaseDelayMs * nextAttempt
                     in (requestV2ResourceSnapshot resourcePath delayMs
                           (s1\<lparr>m_v2ResourceRetryCount := AList.update resourcePath nextAttempt (m_v2ResourceRetryCount s1)\<rparr>),
                         False))
                  else
                    finalizeV2SnapshotIfReady
                      (s1\<lparr>m_v2ResourceRetryCount := AList.delete resourcePath (m_v2ResourceRetryCount s1),
                          m_v2SnapshotFailedThisCycle := True,
                          m_v2SnapshotByType := AList.update resourcePath [] (m_v2SnapshotByType s1),
                          m_v2SnapshotPending := (if m_v2SnapshotPending s1 > 0 then m_v2SnapshotPending s1 - 1
                                                  else m_v2SnapshotPending s1)\<rparr>))
            else (s, False))
         else if take 7 resourcePath = ''device/'' then
           (let deviceId = drop 7 resourcePath;
                s1 = (if deviceId \<noteq> []
                      then s\<lparr>m_pendingV2DeviceFetch := m_pendingV2DeviceFetch s |-| {|deviceId|},
                             m_failedV2DeviceFetch := finsert deviceId (m_failedV2DeviceFetch s)\<rparr>
                      else s)
            in (startNextQueuedV2DeviceFetch s1, False))
         else (s, False))"

text \<open>
  The success branch of \<open>onNetworkReplyFinished\<close> for a reply on the path
  \<open>device/...\<close> (lines 865 to 975); \<open>doc\<close> is the parsed body. The connection is
  reported up first. A body that is not a JSON object ends the handler there: the id
  stays in the pending set and no queued fetch is started. Otherwise the id leaves
  the pending set, the next queued fetch is started, and the cycle is finalised if it
  is ready. The merge of the fetched metadata into the device cache in between does
  not touch the fetch bookkeeping. The handler goes by the path alone, so the reply
  to a rename, a \<open>PUT\<close> on the same path, takes this branch too.
\<close>

definition onNetworkReplyFinished_device :: "string \<Rightarrow> json \<Rightarrow> HueAdapter \<Rightarrow> HueAdapter \<times> bool" where
  "onNetworkReplyFinished_device deviceId doc s0 =
     (let s = setConnected True s0
      in if \<not> isObject doc then (s, False)
         else
           let s1 = (if deviceId \<noteq> []
                     then s\<lparr>m_pendingV2DeviceFetch := m_pendingV2DeviceFetch s |-| {|deviceId|}\<rparr> else s)
           in finalizeV2SnapshotIfReady (startNextQueuedV2DeviceFetch s1))"


section \<open>The legacy adapter: scenes\<close>

text \<open>
  \<open>firstNonEmptyString\<close> for its one call, with the key list \<open>{"name"}\<close>, and
  \<open>handleV2SceneResource\<close>. The raw payload the source also keeps in \<open>scene.meta\<close> is
  left out of the record.
\<close>

fun firstNonEmptyString :: "QJsonObject \<Rightarrow> string list \<Rightarrow> string" where
  "firstNonEmptyString obj [] = []"
| "firstNonEmptyString obj (key # keys) =
     (case jvalue obj key of
        JString t \<Rightarrow> (if trimmed t \<noteq> [] then trimmed t else firstNonEmptyString obj keys)
      | JObject nested \<Rightarrow>
          (if trimmed (toString (jvalue nested ''value'')) \<noteq> [] then trimmed (toString (jvalue nested ''value''))
           else if trimmed (toString (jvalue nested ''name'')) \<noteq> [] then trimmed (toString (jvalue nested ''name''))
           else firstNonEmptyString obj keys)
      | _ \<Rightarrow> firstNonEmptyString obj keys)"

definition defaultScene :: Scene where
  "defaultScene = \<lparr> sc_id = [], sc_name = [], sc_description = [], sc_image = [], sc_state = Unknown,
                    sc_scopeId = [], sc_scopeType = [], sc_supportsDynamic = False \<rparr>"

definition parseSceneState :: "string \<Rightarrow> SceneState" where
  "parseSceneState v =
     (let normalized = toLower (trimmed v)
      in if normalized = ''dynamic'' then ActiveDynamic
         else if normalized = ''static'' \<or> normalized = ''active'' then ActiveStatic
         else if normalized = ''inactive'' then Inactive
         else Unknown)"

definition hasAction :: "QJsonObject \<Rightarrow> string \<Rightarrow> bool" where
  "hasAction resObj action =
     (if action = [] then False
      else case jvalue (toObject (jvalue resObj ''status'')) ''action_values'' of
             JArray arr \<Rightarrow> (\<exists>v \<in> set arr. toLower (toString v) = toLower action)
           | JString t \<Rightarrow> toLower t = toLower action
           | _ \<Rightarrow> False)"

definition handleV2SceneResource :: "QJsonObject \<Rightarrow> HueAdapter \<Rightarrow> HueAdapter" where
  "handleV2SceneResource resObj s =
     (let sceneId = toString (jvalue resObj ''id'')
      in if sceneId = [] then s
         else
           let scene0 = (hvalue (m_v2Scenes s) sceneId defaultScene)\<lparr>sc_id := sceneId\<rparr>;
               metaObj = toObject (jvalue resObj ''metadata'');
               sceneName = firstNonEmptyString metaObj [''name''];
               scene1 = (if trimmed sceneName \<noteq> [] then scene0\<lparr>sc_name := sceneName\<rparr> else scene0)
           in if trimmed (sc_name scene1) = [] then s
              else
                let scene2 = (case map_of metaObj ''description'' of
                                None \<Rightarrow> scene1
                              | Some (JString d) \<Rightarrow> scene1\<lparr>sc_description := d\<rparr>
                              | Some _ \<Rightarrow> scene1);
                    avatarImage = toString (jvalue (toObject (jvalue metaObj ''image'')) ''rid'');
                    scene3 = (if avatarImage \<noteq> [] then scene2\<lparr>sc_image := avatarImage\<rparr> else scene2);
                    statusObj = toObject (jvalue resObj ''status'');
                    scene4 = (case map_of statusObj ''active'' of
                                None \<Rightarrow> scene3
                              | Some a \<Rightarrow> (if parseSceneState (toString a) \<noteq> Unknown
                                           then scene3\<lparr>sc_state := parseSceneState (toString a)\<rparr> else scene3));
                    groupObj = toObject (jvalue resObj ''group'');
                    scopeExternalId = toString (jvalue groupObj ''rid'');
                    scene5 = (if scopeExternalId \<noteq> [] then scene4\<lparr>sc_scopeId := scopeExternalId\<rparr> else scene4);
                    rtype = toString (jvalue groupObj ''rtype'');
                    scene6 = (if rtype \<noteq> []
                              then scene5\<lparr>sc_scopeType := (if rtype = ''room'' then ''room''
                                                           else if rtype = ''zone'' then ''group'' else rtype)\<rparr>
                              else scene5);
                    scene7 = (if sc_state scene6 = Unknown then scene6\<lparr>sc_state := Inactive\<rparr> else scene6);
                    scene8 = scene7\<lparr>sc_supportsDynamic := hasAction resObj ''dynamic_palette''\<rparr>
                in s\<lparr>m_v2Scenes := AList.update sceneId scene8 (m_v2Scenes s)\<rparr>)"

fun handleScenes :: "json list \<Rightarrow> HueAdapter \<Rightarrow> HueAdapter" where
  "handleScenes [] s = s"
| "handleScenes (v # rest) s =
     (if \<not> isObject v then handleScenes rest s
      else handleScenes rest (handleV2SceneResource (toObject v) s))"

text \<open>
  \<open>handleV2ResourceSnapshot\<close>, for the \<open>data\<close> array of a successful reply, and the
  scene branch of \<open>handleEventStreamEventObject\<close>.
\<close>

definition handleV2ResourceSnapshot :: "string \<Rightarrow> json list \<Rightarrow> HueAdapter \<Rightarrow> HueAdapter \<times> bool" where
  "handleV2ResourceSnapshot resourceTy dataArr s =
     (let s1 = s\<lparr>m_v2SnapshotByType := AList.update resourceTy dataArr (m_v2SnapshotByType s),
                  m_pendingV2ResourceTypes := m_pendingV2ResourceTypes s |-| {|resourceTy|},
                  m_v2ResourceRetryCount := AList.delete resourceTy (m_v2ResourceRetryCount s)\<rparr>;
          s2 = (if resourceTy = ''scene''
                then (handleScenes dataArr (s1\<lparr>m_v2Scenes := []\<rparr>))\<lparr>m_sceneSnapshotDirty := True\<rparr>
                else s1);
          s3 = (if m_v2SnapshotPending s2 > 0 then s2\<lparr>m_v2SnapshotPending := m_v2SnapshotPending s2 - 1\<rparr> else s2)
      in finalizeV2SnapshotIfReady s3)"

definition handleSceneEvent :: "QJsonObject \<Rightarrow> HueAdapter \<Rightarrow> HueAdapter" where
  "handleSceneEvent resObj s =
     (let s1 = handleV2SceneResource resObj s
      in emit (scenesUpdated (map snd (m_v2Scenes s1))) s1)"

section \<open>The legacy adapter: emitting devices and removals\<close>

text \<open>
  Stage 6 of \<open>buildDevicesFromV2Snapshots\<close> (lines 2543 to 2595), entered with
  \<open>m_v2Devices\<close> and \<open>m_v2DeviceChannels\<close> as stages 1 to 5 have left them and with the
  local set \<open>snapshotDeviceIds\<close> of the ids in the \<open>device\<close> array. The first loop
  emits the devices; \<open>True\<close> in its result is \<open>devicesPendingMetadata\<close>, on which the
  function returns before the removals.
\<close>

definition defaultDevice :: Device where
  "defaultDevice = \<lparr> device_id = [], device_name = [], device_meta = [] \<rparr>"

definition fallbackName :: "QJsonObject \<Rightarrow> string" where
  "fallbackName meta =
     (let metaName = toString (jvalue (toObject (jvalue meta ''metadata'')) ''name'');
          productName = toString (jvalue (toObject (jvalue meta ''product_data'')) ''product_name'')
      in if metaName \<noteq> [] then metaName
         else if productName \<noteq> [] then productName
         else ''Hue Device'')"

fun emitDevices :: "string list \<Rightarrow> HueAdapter \<Rightarrow> HueAdapter \<times> bool" where
  "emitDevices [] s = (s, False)"
| "emitDevices (deviceExtId # rest) s =
     (let chans = hvalue (m_v2DeviceChannels s) deviceExtId []
      in if chans = [] then emitDevices rest s
         else
           let dev = hvalue (m_v2Devices s) deviceExtId defaultDevice
           in if device_meta dev = []
              then (fst (emitDevices rest (fetchV2DeviceResource deviceExtId s)), True)
              else
                let dev1 = (if device_id dev = [] then dev\<lparr>device_id := deviceExtId\<rparr> else dev);
                    dev2 = (if device_name dev1 = []
                            then dev1\<lparr>device_name := fallbackName (device_meta dev1)\<rparr> else dev1)
                in emitDevices rest (emit (deviceUpdated dev2 chans) s))"

fun removeDevices :: "string list \<Rightarrow> HueAdapter \<Rightarrow> HueAdapter" where
  "removeDevices [] s = s"
| "removeDevices (extId # rest) s =
     (if extId = [] then removeDevices rest s
      else removeDevices rest
             ((emit (deviceRemoved extId) s)
                \<lparr>m_v2Devices := AList.delete extId (m_v2Devices s),
                 m_v2DeviceChannels := AList.delete extId (m_v2DeviceChannels s),
                 m_v2DeviceInfoCache := AList.delete extId (m_v2DeviceInfoCache s)\<rparr>))"

definition emitDevicesAndRemovals :: "string list \<Rightarrow> HueAdapter \<Rightarrow> HueAdapter \<times> bool" where
  "emitDevicesAndRemovals snapshotDeviceIds s =
     (case emitDevices (map fst (m_v2Devices s)) s of
        (s1, True) \<Rightarrow> (s1, True)
      | (s1, False) \<Rightarrow>
          (let removedDevices = filter (\<lambda>x. x \<notin> set snapshotDeviceIds) (m_knownDeviceExternalIds s1)
           in ((removeDevices removedDevices s1)\<lparr>m_knownDeviceExternalIds := snapshotDeviceIds\<rparr>, False)))"

text \<open>
  The \<open>deviceUpdated\<close> signals the first loop has to emit for given maps of devices
  and channel lists, and the test for a \<open>deviceRemoved\<close> signal; they serve to state
  what the stage emits.
\<close>

definition namedDevice :: "string \<Rightarrow> Device \<Rightarrow> Device" where
  "namedDevice deviceExtId dev =
     (let dev1 = (if device_id dev = [] then dev\<lparr>device_id := deviceExtId\<rparr> else dev)
      in if device_name dev1 = [] then dev1\<lparr>device_name := fallbackName (device_meta dev1)\<rparr> else dev1)"

definition deviceSignals :: "(string \<times> Device) list \<Rightarrow> (string \<times> Channel list) list \<Rightarrow> string list \<Rightarrow> Signal list" where
  "deviceSignals devs chans keys =
     map (\<lambda>k. deviceUpdated (namedDevice k (hvalue devs k defaultDevice)) (hvalue chans k []))
         (filter (\<lambda>k. hvalue chans k [] \<noteq> [] \<and> device_meta (hvalue devs k defaultDevice) \<noteq> []) keys)"

fun isDeviceRemovedSignal :: "Signal \<Rightarrow> bool" where
  "isDeviceRemovedSignal (deviceRemoved k) = True"
| "isDeviceRemovedSignal _ = False"

section \<open>The legacy adapter: the button multi-press counter\<close>

text \<open>
  \<open>handleShortPressRelease\<close>, \<open>finalizePendingShortPress\<close>, the expiry of a
  tracker's single-shot timer, and the end of \<open>handleV2ButtonResource\<close> (lines 3123
  to 3146), entered once the owner device, the channel and the event code of the
  button resource are known. The number a \<open>ButtonEventCode\<close> is cast to is declared
  outside this repository; the emitted value is the enumerator.
\<close>

definition defaultTracker :: ButtonMultiPressTracker where
  "defaultTracker = \<lparr> tr_count = 0, tr_lastTs = 0, tr_timer = NoTimer, tr_deviceExtId = [], tr_channelExtId = [] \<rparr>"

definition handleShortPressRelease :: "string \<Rightarrow> string \<Rightarrow> int \<Rightarrow> HueAdapter \<Rightarrow> HueAdapter" where
  "handleShortPressRelease deviceExtId channelExtId eventTs s =
     (if deviceExtId = [] \<or> channelExtId = [] then s
      else
        let key = channelBindingKey deviceExtId channelExtId;
            tracker = hvalue (m_buttonMultiPress s) key defaultTracker;
            tracker1 = tracker\<lparr>tr_deviceExtId := deviceExtId,
                              tr_channelExtId := channelExtId,
                              tr_lastTs := eventTs,
                              tr_count := tr_count tracker + 1,
                              tr_timer := TimerRunning kButtonMultiPressWindowMs\<rparr>
        in s\<lparr>m_buttonMultiPress := AList.update key tracker1 (m_buttonMultiPress s)\<rparr>)"

definition aggregatedCode :: "int \<Rightarrow> ButtonEventCode" where
  "aggregatedCode n = (if n = 2 then DoublePress else if n = 3 then TriplePress
                       else if n = 4 then QuadruplePress else QuintuplePress)"

definition finalizePendingShortPress :: "string \<Rightarrow> HueAdapter \<Rightarrow> HueAdapter" where
  "finalizePendingShortPress key s =
     (case map_of (m_buttonMultiPress s) key of
        None \<Rightarrow> s
      | Some tracker \<Rightarrow>
          let stopped = tracker\<lparr>tr_timer := (if tr_timer tracker = NoTimer then NoTimer else TimerStopped),
                                tr_count := 0, tr_lastTs := 0\<rparr>;
              s1 = s\<lparr>m_buttonMultiPress := AList.update key stopped (m_buttonMultiPress s)\<rparr>
          in if tr_count tracker < 2 then s1
             else if aggregatedCode (tr_count tracker) \<noteq> NoneCode
                     \<and> tr_deviceExtId tracker \<noteq> [] \<and> tr_channelExtId tracker \<noteq> []
                  then emit (channelStateUpdated (tr_deviceExtId tracker) (tr_channelExtId tracker)
                               (QButton (aggregatedCode (tr_count tracker))) (tr_lastTs tracker)) s1
                  else s1)"

definition multiPressTimer_timeout :: "string \<Rightarrow> HueAdapter \<Rightarrow> HueAdapter" where
  "multiPressTimer_timeout key s =
     (case map_of (m_buttonMultiPress s) key of
        None \<Rightarrow> s
      | Some tracker \<Rightarrow> (case tr_timer tracker of
                           TimerRunning ms \<Rightarrow> finalizePendingShortPress key s
                         | _ \<Rightarrow> s))"

definition handleV2ButtonResource :: "string \<Rightarrow> string \<Rightarrow> ButtonEventCode \<Rightarrow> int \<Rightarrow> HueAdapter \<Rightarrow> HueAdapter" where
  "handleV2ButtonResource deviceExtId channelExtId code eventTs s =
     (if deviceExtId = [] then s
      else if code = NoneCode then s
      else
        let bindingKey = channelBindingKey deviceExtId channelExtId;
            s1 = (if code = InitialPress then
                    (case map_of (m_buttonMultiPress s) bindingKey of
                       None \<Rightarrow> s
                     | Some tracker \<Rightarrow>
                         (if tr_count tracker > 0 \<and> tr_lastTs tracker > 0
                             \<and> eventTs - tr_lastTs tracker \<ge> kButtonMultiPressResetGapMs
                          then finalizePendingShortPress bindingKey s else s))
                  else s);
            s2 = (if code = ShortPressRelease then handleShortPressRelease deviceExtId channelExtId eventTs s1 else s1)
        in emit (channelStateUpdated deviceExtId channelExtId (QButton code) eventTs) s2)"


text \<open>A run of button events and timer expiries on one channel, in the order they are dispatched.\<close>

datatype ButtonInput = Button ButtonEventCode int | WindowExpired

fun buttonStep :: "string \<Rightarrow> string \<Rightarrow> ButtonInput \<Rightarrow> HueAdapter \<Rightarrow> HueAdapter" where
  "buttonStep dev ch (Button code ts) s = handleV2ButtonResource dev ch code ts s"
| "buttonStep dev ch WindowExpired s = multiPressTimer_timeout (channelBindingKey dev ch) s"

definition buttonRun :: "string \<Rightarrow> string \<Rightarrow> ButtonInput list \<Rightarrow> HueAdapter \<Rightarrow> HueAdapter" where
  "buttonRun dev ch inputs s = foldl (\<lambda>st i. buttonStep dev ch i st) s inputs"


section \<open>The legacy adapter: gamut clamping and channel writes\<close>














section \<open>The legacy adapter: runs of callbacks\<close>

text \<open>
  The callbacks that touch the snapshot cycle and the fetch queue, as events. The
  rebuild and the per-resource handlers ask for device metadata only through
  \<open>fetchV2DeviceResource\<close>; each such call is an event \<open>RequestMetadata\<close>.
  \<open>ReplyFailed\<close> is a failed reply on the given path under \<open>/clip/v2/resource/\<close>,
  \<open>DeviceReplyOk\<close> an error-free reply to a metadata fetch with its parsed body,
  \<open>SnapshotReplyOk\<close> an error-free reply to a snapshot request whose body is an object
  with the given \<open>data\<close> array, and \<open>ReplyNotObject\<close> an error-free reply on another
  path than \<open>device/...\<close> whose body is not a JSON object. \<open>RenameReplyOk\<close> and
  \<open>RenameReplyFailed\<close> are the replies to the \<open>PUT\<close> on \<open>device/<id>\<close> that
  \<open>updateDeviceName\<close> sends (line 3350): \<open>onNetworkReplyFinished\<close> handles them by
  their path, exactly as the replies to a metadata fetch.
\<close>

datatype AdapterEvent =
    RequestMetadata string
  | FetchTimerFired
  | ReplyFailed string
  | DeviceReplyOk string json
  | SnapshotReplyOk string "json list"
  | DelayedRequestDue string
  | FullSyncRequested
  | ReplyNotObject
  | RenameReplyOk string json
  | RenameReplyFailed string

fun adapterStep :: "AdapterEvent \<Rightarrow> HueAdapter \<Rightarrow> HueAdapter" where
  "adapterStep (RequestMetadata deviceId) s = fetchV2DeviceResource deviceId s"
| "adapterStep FetchTimerFired s = v2DeviceFetchTimer_timeout s"
| "adapterStep (ReplyFailed resourcePath) s = fst (onNetworkReplyFinished_error resourcePath s)"
| "adapterStep (DeviceReplyOk deviceId doc) s = fst (onNetworkReplyFinished_device deviceId doc s)"
| "adapterStep (SnapshotReplyOk resourceTy dataArr) s = fst (handleV2ResourceSnapshot resourceTy dataArr (setConnected True s))"
| "adapterStep (DelayedRequestDue resourceTy) s = sendRequest resourceTy s"
| "adapterStep FullSyncRequested s = fetchV2ResourcesSnapshot s"
| "adapterStep ReplyNotObject s = setConnected True s"
| "adapterStep (RenameReplyOk deviceId doc) s = fst (onNetworkReplyFinished_device deviceId doc s)"
| "adapterStep (RenameReplyFailed deviceId) s = fst (onNetworkReplyFinished_error (''device/'' @ deviceId) s)"

definition adapterRun :: "AdapterEvent list \<Rightarrow> HueAdapter \<Rightarrow> HueAdapter" where
  "adapterRun events s = foldl (\<lambda>st e. adapterStep e st) s events"









text \<open>
  The rebuild is entered only by \<open>finalizeV2SnapshotIfReady\<close>, and not while the
  cycle has a failed resource type or the bootstrap is done.
\<close>

definition rebuildBlocked :: "HueAdapter \<Rightarrow> bool" where
  "rebuildBlocked s = (m_v2SnapshotFailedThisCycle s \<or> m_v2BootstrapDone s)"

section \<open>Example inputs\<close>

text \<open>Concrete states and inputs at which the theorems below are instantiated and evaluated.\<close>

definition adapter0 :: HueAdapter where
  "adapter0 = \<lparr> m_nam = True, token = ''key'', m_connected = True, m_stopping = False,
     m_v2SnapshotByType = [], m_v2SnapshotPending = 0, m_v2BootstrapDone = False,
     m_v2SnapshotFailedThisCycle = False, m_pendingV2DeviceFetch = {||},
     m_pendingV2ResourceTypes = {||}, m_v2ResourceRetryCount = [],
     m_failedV2DeviceFetch = {||}, m_v2DeviceFetchQueue = [], m_v2DeviceFetchTimer = False,
     m_v2Devices = [], m_v2DeviceInfoCache = [], m_v2DeviceChannels = [],
     m_knownDeviceExternalIds = [], m_v2Scenes = [], m_sceneSnapshotDirty = False,
     m_buttonMultiPress = [], m_gamutByLightId = [], m_channelBindings = [],
     emitted = [], requests = [] \<rparr>"

definition sidecar0 :: HueSidecar where
  "sidecar0 = \<lparr> m_hasBootstrap = True, m_connected_ipc = True, m_devices = [],
     m_lightResourceByDevice = [], m_discoveryResourceId = [], m_knownRooms = [],
     m_knownGroups = [], m_pollIntervalMs = 5000, m_retryIntervalMs = 10000,
     m_nextPollDueMs = 0, sent = [] \<rparr>"

definition acceptAll :: Sink where
  "acceptAll n = None"

definition noRgb :: "ChannelInvokeRequest \<Rightarrow> (real \<times> real \<times> real) option" where
  "noRgb request = None"

definition noDevices :: "ResourceArrays \<Rightarrow> Snapshot" where
  "noDevices arrays = \<lparr> devices = [], rooms = [], groups = [], scenes = [] \<rparr>"

definition env0 :: Env where
  "env0 = \<lparr> env_settings = \<lparr> host = ''bridge'', ip = [], appKey = ''key'' \<rparr>,
            env_fetch = (\<lambda>ty. Inr []), env_put = (\<lambda>path body. None),
            env_sink = acceptAll, env_now = 1000 \<rparr>"



text \<open>A bridge that fails the fetch of one resource type and answers the others with an empty array.\<close>

definition envFailing :: "string \<Rightarrow> Env" where
  "envFailing ty = env0\<lparr>env_fetch := (\<lambda>t. if t = ty then Inl ''timeout'' else Inr [])\<rparr>"

text \<open>
  The last reply of a snapshot cycle is outstanding: the \<open>device\<close> and \<open>light\<close> arrays
  have arrived, \<open>button\<close> has failed three retries.
\<close>

definition lastReplyDue :: HueAdapter where
  "lastReplyDue = adapter0\<lparr>
     m_v2SnapshotByType := [(''device'', [JObject [(''id'', JString ''dev1'')]]),
                            (''light'', [JObject [(''id'', JString ''light1'')]])],
     m_v2ResourceRetryCount := [(''button'', 3)],
     m_pendingV2ResourceTypes := {|''button''|},
     m_v2SnapshotPending := 1\<rparr>"




text \<open>
  A snapshot with one light, the empty snapshot, a sidecar that knows the light from
  its last pass, and a host that refuses the scene list.
\<close>

definition entry1 :: DeviceEntry where
  "entry1 = \<lparr> device = \<lparr> dev_externalId = ''dev1'', dev_name = ''Desk lamp'', dev_manufacturer = ''Signify'',
                           dev_model = ''LCT015'', dev_firmware = ''1.0'', dev_metaJson = JNull \<rparr>,
                channels = [\<lparr> ch_externalId = ''on'', ch_name = ''Power'', ch_hasValue = True,
                              ch_lastValue = SBool True \<rparr>],
                state = \<lparr> lightResourceId = ''light1'' \<rparr> \<rparr>"

definition snapshot1 :: Snapshot where
  "snapshot1 = \<lparr> devices = [(''dev1'', entry1)], rooms = [], groups = [], scenes = [] \<rparr>"

definition emptySnapshot :: Snapshot where
  "emptySnapshot = \<lparr> devices = [], rooms = [], groups = [], scenes = [] \<rparr>"

definition sidecar1 :: HueSidecar where
  "sidecar1 = sidecar0\<lparr>m_devices := [(''dev1'', entry1)], m_lightResourceByDevice := [(''dev1'', ''light1'')]\<rparr>"

definition rejectScenes :: Sink where
  "rejectScenes n = (case n of ScenesUpdated xs \<Rightarrow> Some ''pipe closed'' | _ \<Rightarrow> None)"

text \<open>
  A legacy adapter that knows two devices, of which \<open>dev2\<close> has metadata and a
  channel.
\<close>

definition knownTwo :: HueAdapter where
  "knownTwo = adapter0\<lparr>
     m_knownDeviceExternalIds := [''dev1'', ''dev2''],
     m_v2Devices := [(''dev2'', \<lparr> device_id = ''dev2'', device_name = ''Hall'',
                                  device_meta = [(''id'', JString ''dev2'')] \<rparr>)],
     m_v2DeviceChannels := [(''dev2'', [\<lparr> channel_id = ''on'', channel_name = ''Power'',
                                           minValue = 0, maxValue = 1 \<rparr>])]\<rparr>"

text \<open>A scene resource as the bridge reports it for a scene that has no name yet, and a named one.\<close>

definition sceneStub :: json where
  "sceneStub = JObject [(''id'', JString ''scene1''),
                        (''metadata'', JObject [(''name'', JString [])]),
                        (''group'', JObject [(''rid'', JString ''room1''), (''rtype'', JString ''room'')])]"

definition sceneNamed :: json where
  "sceneNamed = JObject [(''id'', JString ''scene2''),
                         (''metadata'', JObject [(''name'', JString ''Relax'')]),
                         (''group'', JObject [(''rid'', JString ''room1''), (''rtype'', JString ''room'')])]"

definition sceneArrays :: ResourceArrays where
  "sceneArrays = \<lparr> deviceData = [], lightData = [], motionData = [], tamperData = [], temperatureData = [],
                   lightLevelData = [], devicePowerData = [], buttonData = [], zigbeeConnectivityData = [],
                   roomData = [], zoneData = [], sceneData = [sceneStub, sceneNamed] \<rparr>"



definition briRequest :: "ScalarValue \<Rightarrow> ChannelInvokeRequest" where
  "briRequest v = \<lparr> cmdId = 1, deviceExternalId = ''dev1'', channelExternalId = ''bri'',
                    hasScalarValue = True, scalarValue = v, valueJson = [] \<rparr>"


section \<open>Properties of the lazy device-metadata fetches\<close>








lemma pending_setConnected [simp]: "m_pendingV2DeviceFetch (setConnected c s) = m_pendingV2DeviceFetch s"
  by (simp add: setConnected_def emit_def)

lemma pending_sendRequest [simp]: "m_pendingV2DeviceFetch (sendRequest r s) = m_pendingV2DeviceFetch s"
  by (simp add: sendRequest_def)

lemma pending_requestV2ResourceSnapshot [simp]:
  "m_pendingV2DeviceFetch (requestV2ResourceSnapshot r d s) = m_pendingV2DeviceFetch s"
  by (simp add: requestV2ResourceSnapshot_def)

lemma pending_requestAll [simp]: "m_pendingV2DeviceFetch (requestAll rs d s) = m_pendingV2DeviceFetch s"
  by (induction rs d s rule: requestAll.induct) simp_all

lemma pending_finalize [simp]:
  "m_pendingV2DeviceFetch (fst (finalizeV2SnapshotIfReady s)) = m_pendingV2DeviceFetch s"
  by (simp add: finalizeV2SnapshotIfReady_def)

lemma pending_handleV2SceneResource [simp]:
  "m_pendingV2DeviceFetch (handleV2SceneResource obj s) = m_pendingV2DeviceFetch s"
  by (simp add: handleV2SceneResource_def Let_def)

lemma pending_handleScenes [simp]: "m_pendingV2DeviceFetch (handleScenes xs s) = m_pendingV2DeviceFetch s"
  by (induction xs arbitrary: s) simp_all
























lemma requests_setConnected [simp]: "requests (setConnected c s) = requests s"
  by (simp add: setConnected_def emit_def)

lemma requests_handleV2SceneResource [simp]: "requests (handleV2SceneResource obj s) = requests s"
  by (simp add: handleV2SceneResource_def Let_def)

lemma requests_handleScenes [simp]: "requests (handleScenes xs s) = requests s"
  by (induction xs arbitrary: s) simp_all











section \<open>Properties of the gamut clamp\<close>












section \<open>Properties of the button multi-press counter\<close>

text \<open>The effect of one short release, of a burst of them, and of the timer's expiry.\<close>

lemma hvalue_update [simp]: "hvalue (AList.update k v al) k d = v"
  by (simp add: hvalue_def update_conv')

lemma map_of_update_same [simp]: "map_of (AList.update k v al) k = Some v"
  by (simp add: update_conv')



lemma buttonRun_append: "buttonRun dev ch (xs @ ys) s = buttonRun dev ch ys (buttonRun dev ch xs s)"
  by (simp add: buttonRun_def)












section \<open>Properties of the colour-temperature writes\<close>








section \<open>Properties of publishing and of the emitting stage\<close>

text \<open>
  What one pass of \<open>publishSnapshot\<close> delivers to a host that accepts every message,
  what it leaves unchanged when a send fails, and what stage 6 of the legacy rebuild
  emits.
\<close>

lemma send_accept [simp]: "send (\<lambda>n. None) n st = (st\<lparr>sent := sent st @ [n]\<rparr>, None)"
  by (simp add: send_def)

lemma removed_accept:
  "\<exists>L. publishSnapshot_removed (\<lambda>n. None) snapshot entries st
           = (st\<lparr>sent := sent st @ map DeviceRemoved (filter (\<lambda>k. \<not> hcontains (devices snapshot) k) (map fst entries)),
                  m_lightResourceByDevice := L\<rparr>, None)"
proof (induction entries arbitrary: st)
  case Nil
  show ?case by (rule exI[of _ "m_lightResourceByDevice st"]) simp
next
  case (Cons x xs)
  obtain k e where x: "x = (k, e)" by (cases x)
  show ?case
  proof (cases "hcontains (devices snapshot) k")
    case True
    then show ?thesis using Cons.IH[of st] by (simp add: x)
  next
    case False
    let ?st' = "st\<lparr>sent := sent st @ [DeviceRemoved k],
                    m_lightResourceByDevice := AList.delete k (m_lightResourceByDevice st)\<rparr>"
    from Cons.IH[of ?st'] obtain L where
      "publishSnapshot_removed (\<lambda>n. None) snapshot xs ?st'
         = (?st'\<lparr>sent := sent ?st' @ map DeviceRemoved (filter (\<lambda>k. \<not> hcontains (devices snapshot) k) (map fst xs)),
                  m_lightResourceByDevice := L\<rparr>, None)" by blast
    then show ?thesis using False by (intro exI[of _ L]) (simp add: x)
  qed
qed

lemma channels_accept:
  "publishSnapshot_channels (\<lambda>n. None) ts devId chans st
           = (st\<lparr>sent := sent st @ channelNotifications ts devId chans\<rparr>, None)"
  by (induction chans arbitrary: st) (simp_all add: channelNotifications_def)

lemma devices_accept:
  "publishSnapshot_devices (\<lambda>n. None) ts entries acc st
           = ((st\<lparr>sent := sent st @ deviceNotifications ts entries\<rparr>, nextLights entries acc), None)"
proof (induction entries arbitrary: st acc)
  case Nil
  then show ?case by (simp add: deviceNotifications_def nextLights_def)
next
  case (Cons x xs)
  obtain k e where x: "x = (k, e)" by (cases x)
  show ?case
    by (simp add: x channels_accept Cons.IH)
       (simp add: deviceNotifications_def nextLights_def)
qed

lemma rooms_accept:
  "publishSnapshot_rooms (\<lambda>n. None) rs acc st
           = ((st\<lparr>sent := sent st @ roomNotifications rs\<rparr>, idSet (map room_externalId rs) acc), None)"
  by (induction rs arbitrary: st acc) (simp_all add: roomNotifications_def idSet_def)

lemma groups_accept:
  "publishSnapshot_groups (\<lambda>n. None) gs acc st
           = ((st\<lparr>sent := sent st @ groupNotifications gs\<rparr>, idSet (map group_externalId gs) acc), None)"
  by (induction gs arbitrary: st acc) (simp_all add: groupNotifications_def idSet_def)

lemma oldRooms_accept:
  "publishSnapshot_oldRooms (\<lambda>n. None) nextRooms old st
           = (st\<lparr>sent := sent st @ map RoomRemoved (filter (\<lambda>r. r \<notin> set nextRooms) old)\<rparr>, None)"
  by (induction old arbitrary: st) simp_all

lemma oldGroups_accept:
  "publishSnapshot_oldGroups (\<lambda>n. None) nextGroups old st
           = (st\<lparr>sent := sent st @ map GroupRemoved (filter (\<lambda>r. r \<notin> set nextGroups) old)\<rparr>, None)"
  by (induction old arbitrary: st) simp_all

lemma publishSnapshot_accept:
  "publishSnapshot (\<lambda>n. None) ts snapshot st =
     (st\<lparr>sent := sent st @ map DeviceRemoved (removedKeys st snapshot)
                 @ deviceNotifications ts (devices snapshot)
                 @ roomNotifications (rooms snapshot)
                 @ map RoomRemoved (filter (\<lambda>r. r \<notin> set (idSet (map room_externalId (rooms snapshot)) [])) (m_knownRooms st))
                 @ groupNotifications (groups snapshot)
                 @ map GroupRemoved (filter (\<lambda>r. r \<notin> set (idSet (map group_externalId (groups snapshot)) [])) (m_knownGroups st))
                 @ [ScenesUpdated (scenes snapshot)],
         m_devices := devices snapshot,
         m_lightResourceByDevice := nextLights (devices snapshot) [],
         m_knownRooms := idSet (map room_externalId (rooms snapshot)) [],
         m_knownGroups := idSet (map group_externalId (groups snapshot)) []\<rparr>, None)"
proof -
  obtain L where r: "publishSnapshot_removed (\<lambda>n. None) snapshot (m_devices st) st
           = (st\<lparr>sent := sent st @ map DeviceRemoved (removedKeys st snapshot),
                  m_lightResourceByDevice := L\<rparr>, None)"
    using removed_accept[of snapshot "m_devices st" st] by (auto simp: removedKeys_def)
  show ?thesis
    unfolding publishSnapshot_def r
    by (simp add: devices_accept rooms_accept oldRooms_accept groups_accept oldGroups_accept)
qed
lemma acceptAll_eq: "acceptAll = (\<lambda>n. None)"
  by (rule ext) (simp add: acceptAll_def)

lemma removedKeys_after:
  "m_devices st = devices snapshot \<Longrightarrow> removedKeys st snapshot = []"
  by (auto simp: removedKeys_def hcontains_def filter_empty_conv)

lemma filter_notin_self: "filter (\<lambda>r. r \<notin> set xs) xs = []"
  by (simp add: filter_empty_conv)

lemma publishSnapshot_again:
  assumes "st1 = fst (publishSnapshot (\<lambda>n. None) ts snapshot st)"
  shows "publishSnapshot (\<lambda>n. None) ts2 snapshot st1
           = (st1\<lparr>sent := sent st1 @ updateNotifications ts2 snapshot\<rparr>, None)"
proof -
  have d: "m_devices st1 = devices snapshot"
          "m_knownRooms st1 = idSet (map room_externalId (rooms snapshot)) []"
          "m_knownGroups st1 = idSet (map group_externalId (groups snapshot)) []"
          "m_lightResourceByDevice st1 = nextLights (devices snapshot) []"
    unfolding assms publishSnapshot_accept by simp_all
  have r: "removedKeys st1 snapshot = []" using d(1) by (rule removedKeys_after)
  show ?thesis
    unfolding publishSnapshot_accept[of ts2 snapshot st1] r d(2,3) filter_notin_self updateNotifications_def
    using d by simp
qed

lemma deviceNotifications_no_removed [simp]:
  "filter isDeviceRemoved (deviceNotifications ts es) = []"
  by (induction es) (auto simp: deviceNotifications_def channelNotifications_def filter_empty_conv)

lemma deviceNotifications_no_removal [simp]:
  "filter isRemoval (deviceNotifications ts es) = []"
  by (induction es) (auto simp: deviceNotifications_def channelNotifications_def filter_empty_conv)

lemma other_no_removed [simp]:
  "filter isDeviceRemoved (roomNotifications rs) = []"
  "filter isDeviceRemoved (groupNotifications gs) = []"
  "filter isDeviceRemoved (map RoomRemoved xs) = []"
  "filter isDeviceRemoved (map GroupRemoved xs) = []"
  "filter isDeviceRemoved (map DeviceRemoved xs) = map DeviceRemoved xs"
  "filter isRemoval (roomNotifications rs) = []"
  "filter isRemoval (groupNotifications gs) = []"
  by (simp_all add: roomNotifications_def groupNotifications_def filter_empty_conv filter_id_conv)

lemma updateNotifications_no_removal:
  "filter isRemoval (updateNotifications ts snapshot) = []"
  "filter isDeviceRemoved (updateNotifications ts snapshot) = []"
  by (simp_all add: updateNotifications_def)

lemma publishSnapshot_new_removed:
  "filter isDeviceRemoved (drop (length (sent st)) (sent (fst (publishSnapshot (\<lambda>n. None) ts snapshot st))))
     = map DeviceRemoved (removedKeys st snapshot)"
  unfolding publishSnapshot_accept by simp

lemma removedKeys_distinct:
  "distinct (map fst (m_devices st)) \<Longrightarrow> distinct (removedKeys st snapshot)"
  by (simp add: removedKeys_def)

lemma removedKeys_set:
  "set (removedKeys st snapshot) = fst ` set (m_devices st) - fst ` set (devices snapshot)"
  by (auto simp: removedKeys_def hcontains_def)

lemma count_filter_removed:
  "count_list xs (DeviceRemoved k) = count_list (filter isDeviceRemoved xs) (DeviceRemoved k)"
  by (induction xs) auto

lemma count_map_removed: "count_list (map DeviceRemoved ks) (DeviceRemoved k) = count_list ks k"
  by (induction ks) auto

lemma count_distinct: "distinct ks \<Longrightarrow> count_list ks k = (if k \<in> set ks then 1 else 0)"
  by (induction ks) auto

lemma removed_exactly_once:
  assumes "distinct (map fst (m_devices st))"
  shows "count_list (drop (length (sent st)) (sent (fst (publishSnapshot (\<lambda>n. None) ts snapshot st)))) (DeviceRemoved k)
           = (if k \<in> fst ` set (m_devices st) \<and> k \<notin> fst ` set (devices snapshot) then 1 else 0)"
  unfolding count_filter_removed[of "drop _ _"] publishSnapshot_new_removed count_map_removed
    count_distinct[OF removedKeys_distinct[OF assms]] removedKeys_set
  by simp

lemma channelNotifications_device:
  "channelStateDevice ` set (channelNotifications ts d chans) \<subseteq> {Some d}"
  by (auto simp: channelNotifications_def)

lemma deviceNotifications_devices:
  "channelStateDevice ` set (deviceNotifications ts es)
     \<subseteq> insert None (Some ` (\<lambda>(k, e). dev_externalId (device e)) ` set es)"
proof (induction es)
  case Nil
  then show ?case by (simp add: deviceNotifications_def)
next
  case (Cons x xs)
  obtain k e where x: "x = (k, e)" by (cases x)
  have s: "deviceNotifications ts (x # xs)
             = DeviceUpdated (device e) (channels e) # channelNotifications ts (dev_externalId (device e)) (channels e)
               @ deviceNotifications ts xs"
    by (simp add: deviceNotifications_def x)
  show ?case
    unfolding s using Cons.IH channelNotifications_device[of ts "dev_externalId (device e)" "channels e"]
    by (auto simp: x)
qed

lemma updateNotifications_devices:
  "channelStateDevice ` set (updateNotifications ts snapshot)
     \<subseteq> insert None (Some ` (\<lambda>(k, e). dev_externalId (device e)) ` set (devices snapshot))"
proof -
  have o: "channelStateDevice ` set (roomNotifications (rooms snapshot)) \<subseteq> {None}"
          "channelStateDevice ` set (groupNotifications (groups snapshot)) \<subseteq> {None}"
    by (auto simp: roomNotifications_def groupNotifications_def)
  show ?thesis
    unfolding updateNotifications_def
    using deviceNotifications_devices[of ts "devices snapshot"] o
    by (auto simp: image_Un)
qed

lemma no_channel_state_for_absent_device:
  assumes "\<forall>(k', e) \<in> set (devices snapshot). dev_externalId (device e) = k'"
      and "k \<notin> fst ` set (devices snapshot)"
  shows "Some k \<notin> channelStateDevice ` set (updateNotifications ts snapshot)"
proof
  assume "Some k \<in> channelStateDevice ` set (updateNotifications ts snapshot)"
  then have "Some k \<in> Some ` (\<lambda>(k, e). dev_externalId (device e)) ` set (devices snapshot)"
    using updateNotifications_devices[of ts snapshot] by auto
  then obtain k' e where "(k', e) \<in> set (devices snapshot)" "dev_externalId (device e) = k"
    by auto
  then show False using assms by force
qed
lemma publish_frame_removed:
  "m_devices (fst (publishSnapshot_removed sink snapshot es st)) = m_devices st"
  by (induction es arbitrary: st) (auto simp: send_def split: option.splits)

lemma publish_frame_channels:
  "m_devices (fst (publishSnapshot_channels sink ts d cs st)) = m_devices st"
  by (induction cs arbitrary: st) (auto simp: send_def split: option.splits)

lemma publish_frame_devices:
  "m_devices (fst (fst (publishSnapshot_devices sink ts es acc st))) = m_devices st"
proof (induction es arbitrary: st acc)
  case Nil
  then show ?case by simp
next
  case (Cons x xs)
  obtain k e where x: "x = (k, e)" by (cases x)
  show ?case
  proof (cases "sink (DeviceUpdated (device e) (channels e))")
    case (Some err)
    then show ?thesis by (simp add: x send_def)
  next
    case None
    let ?st1 = "st\<lparr>sent := sent st @ [DeviceUpdated (device e) (channels e)]\<rparr>"
    obtain st2 r where c: "publishSnapshot_channels sink ts (dev_externalId (device e)) (channels e) ?st1 = (st2, r)"
      by (cases "publishSnapshot_channels sink ts (dev_externalId (device e)) (channels e) ?st1")
    have m: "m_devices st2 = m_devices st"
      using publish_frame_channels[of sink ts "dev_externalId (device e)" "channels e" ?st1] c by simp
    show ?thesis
      by (cases r) (simp_all add: x send_def None c m Cons.IH)
  qed
qed

lemma publish_frame_rooms:
  "m_devices (fst (fst (publishSnapshot_rooms sink rs acc st))) = m_devices st"
  by (induction rs arbitrary: st acc) (auto simp: send_def split: option.splits)

lemma publish_frame_groups:
  "m_devices (fst (fst (publishSnapshot_groups sink gs acc st))) = m_devices st"
  by (induction gs arbitrary: st acc) (auto simp: send_def split: option.splits)

lemma publish_frame_oldRooms:
  "m_devices (fst (publishSnapshot_oldRooms sink nxt old st)) = m_devices st"
  by (induction old arbitrary: st) (auto simp: send_def split: option.splits)

lemma publish_frame_oldGroups:
  "m_devices (fst (publishSnapshot_oldGroups sink nxt old st)) = m_devices st"
  by (induction old arbitrary: st) (auto simp: send_def split: option.splits)

lemma publishSnapshot_failed_keeps_devices:
  assumes "snd (publishSnapshot sink ts snapshot st) \<noteq> None"
  shows "m_devices (fst (publishSnapshot sink ts snapshot st)) = m_devices st"
proof -
  obtain st1 r1 where 1: "publishSnapshot_removed sink snapshot (m_devices st) st = (st1, r1)"
    by (cases "publishSnapshot_removed sink snapshot (m_devices st) st")
  have m1: "m_devices st1 = m_devices st" using publish_frame_removed[of sink snapshot "m_devices st" st] 1 by simp
  obtain st2 nl r2 where 2: "publishSnapshot_devices sink ts (devices snapshot) [] st1 = ((st2, nl), r2)"
    by (cases "publishSnapshot_devices sink ts (devices snapshot) [] st1") auto
  have m2: "m_devices st2 = m_devices st" using publish_frame_devices[of sink ts "devices snapshot" "[]" st1] 2 m1 by simp
  obtain st3 nr r3 where 3: "publishSnapshot_rooms sink (rooms snapshot) [] st2 = ((st3, nr), r3)"
    by (cases "publishSnapshot_rooms sink (rooms snapshot) [] st2") auto
  have m3: "m_devices st3 = m_devices st" using publish_frame_rooms[of sink "rooms snapshot" "[]" st2] 3 m2 by simp
  obtain st4 r4 where 4: "publishSnapshot_oldRooms sink nr (m_knownRooms st3) st3 = (st4, r4)"
    by (cases "publishSnapshot_oldRooms sink nr (m_knownRooms st3) st3")
  have m4: "m_devices st4 = m_devices st" using publish_frame_oldRooms[of sink nr "m_knownRooms st3" st3] 4 m3 by simp
  obtain st5 ng r5 where 5: "publishSnapshot_groups sink (groups snapshot) [] st4 = ((st5, ng), r5)"
    by (cases "publishSnapshot_groups sink (groups snapshot) [] st4") auto
  have m5: "m_devices st5 = m_devices st" using publish_frame_groups[of sink "groups snapshot" "[]" st4] 5 m4 by simp
  obtain st6 r6 where 6: "publishSnapshot_oldGroups sink ng (m_knownGroups st5) st5 = (st6, r6)"
    by (cases "publishSnapshot_oldGroups sink ng (m_knownGroups st5) st5")
  have m6: "m_devices st6 = m_devices st" using publish_frame_oldGroups[of sink ng "m_knownGroups st5" st5] 6 m5 by simp
  show ?thesis
    using assms m1 m2 m3 m4 m5 m6
    by (cases r1; cases r2; cases r3; cases r4; cases r5; cases r6;
        cases "sink (ScenesUpdated (scenes snapshot))")
       (simp_all add: publishSnapshot_def 1 2 3 4 5 6 send_def)
qed

lemma fetch_frame [simp]:
  "emitted (fetchV2DeviceResource d s) = emitted s"
  "m_v2Devices (fetchV2DeviceResource d s) = m_v2Devices s"
  "m_v2DeviceChannels (fetchV2DeviceResource d s) = m_v2DeviceChannels s"
  "m_v2DeviceInfoCache (fetchV2DeviceResource d s) = m_v2DeviceInfoCache s"
  "m_knownDeviceExternalIds (fetchV2DeviceResource d s) = m_knownDeviceExternalIds s"
  by (simp_all add: fetchV2DeviceResource_def startV2DeviceFetch_def)

lemma emit_frame [simp]:
  "emitted (emit sig s) = emitted s @ [sig]"
  "m_v2Devices (emit sig s) = m_v2Devices s"
  "m_v2DeviceChannels (emit sig s) = m_v2DeviceChannels s"
  "m_v2DeviceInfoCache (emit sig s) = m_v2DeviceInfoCache s"
  "m_knownDeviceExternalIds (emit sig s) = m_knownDeviceExternalIds s"
  by (simp_all add: emit_def)

lemma emitDevices_frame:
  "m_v2Devices (fst (emitDevices ks s)) = m_v2Devices s
 \<and> m_v2DeviceChannels (fst (emitDevices ks s)) = m_v2DeviceChannels s
 \<and> m_v2DeviceInfoCache (fst (emitDevices ks s)) = m_v2DeviceInfoCache s
 \<and> m_knownDeviceExternalIds (fst (emitDevices ks s)) = m_knownDeviceExternalIds s"
  by (induction ks arbitrary: s) (simp_all add: Let_def)

lemma emitDevices_emitted:
  "emitted (fst (emitDevices ks s)) = emitted s @ deviceSignals (m_v2Devices s) (m_v2DeviceChannels s) ks"
proof (induction ks arbitrary: s)
  case Nil
  then show ?case by (simp add: deviceSignals_def)
next
  case (Cons k ks)
  have t: "\<And>s'. m_v2Devices s' = m_v2Devices s \<Longrightarrow> m_v2DeviceChannels s' = m_v2DeviceChannels s \<Longrightarrow>
             emitted (fst (emitDevices ks s')) = emitted s' @ deviceSignals (m_v2Devices s) (m_v2DeviceChannels s) ks"
    using Cons.IH by metis
  show ?case
    by (simp add: Let_def t) (simp add: deviceSignals_def namedDevice_def Let_def)
qed

lemma emitDevices_pending:
  "snd (emitDevices ks s) =
     (\<exists>k \<in> set ks. hvalue (m_v2DeviceChannels s) k [] \<noteq> [] \<and> device_meta (hvalue (m_v2Devices s) k defaultDevice) = [])"
proof (induction ks arbitrary: s)
  case Nil
  then show ?case by simp
next
  case (Cons k ks)
  have t: "\<And>s'. m_v2Devices s' = m_v2Devices s \<Longrightarrow> m_v2DeviceChannels s' = m_v2DeviceChannels s \<Longrightarrow>
             snd (emitDevices ks s') =
     (\<exists>k \<in> set ks. hvalue (m_v2DeviceChannels s) k [] \<noteq> [] \<and> device_meta (hvalue (m_v2Devices s) k defaultDevice) = [])"
    using Cons.IH by metis
  show ?case by (auto simp: Let_def t)
qed

lemma removeDevices_emitted:
  "emitted (removeDevices ks s) = emitted s @ map deviceRemoved (filter (\<lambda>k. k \<noteq> []) ks)"
  by (induction ks arbitrary: s) simp_all

lemma removeDevices_known [simp]:
  "m_knownDeviceExternalIds (removeDevices ks s) = m_knownDeviceExternalIds s"
  by (induction ks arbitrary: s) simp_all

lemma deviceSignals_not_removed [simp]: "filter isDeviceRemovedSignal (deviceSignals devs chans ks) = []"
  by (simp add: deviceSignals_def filter_empty_conv)

lemma removed_signals_filter [simp]: "filter isDeviceRemovedSignal (map deviceRemoved ks) = map deviceRemoved ks"
  by (induction ks) simp_all

lemma stage6_emitted:
  "emitted (fst (emitDevicesAndRemovals ids s)) =
     emitted s @ deviceSignals (m_v2Devices s) (m_v2DeviceChannels s) (map fst (m_v2Devices s))
       @ (if snd (emitDevicesAndRemovals ids s) then []
          else map deviceRemoved (filter (\<lambda>k. k \<noteq> []) (filter (\<lambda>x. x \<notin> set ids) (m_knownDeviceExternalIds s))))"
proof (cases "emitDevices (map fst (m_v2Devices s)) s")
  case (Pair s1 pend)
  have e: "emitted s1 = emitted s @ deviceSignals (m_v2Devices s) (m_v2DeviceChannels s) (map fst (m_v2Devices s))"
    using emitDevices_emitted[of "map fst (m_v2Devices s)" s] Pair by simp
  have k: "m_knownDeviceExternalIds s1 = m_knownDeviceExternalIds s"
    using emitDevices_frame[of "map fst (m_v2Devices s)" s] Pair by simp
  show ?thesis
    by (cases pend) (simp_all add: emitDevicesAndRemovals_def Pair e k removeDevices_emitted Let_def)
qed

lemma stage6_known:
  "\<not> snd (emitDevicesAndRemovals ids s) \<Longrightarrow> m_knownDeviceExternalIds (fst (emitDevicesAndRemovals ids s)) = ids"
  by (cases "emitDevices (map fst (m_v2Devices s)) s") (auto simp: emitDevicesAndRemovals_def Let_def split: bool.splits)

lemma deviceNotifications_updated:
  "filter isDeviceUpdated (deviceNotifications ts es) = map (\<lambda>(k, e). DeviceUpdated (device e) (channels e)) es"
proof (induction es)
  case Nil
  then show ?case by (simp add: deviceNotifications_def)
next
  case (Cons x xs)
  obtain k e where x: "x = (k, e)" by (cases x)
  have c: "filter isDeviceUpdated (channelNotifications ts (dev_externalId (device e)) (channels e)) = []"
    by (simp add: channelNotifications_def filter_empty_conv)
  have t: "filter isDeviceUpdated (deviceNotifications ts xs) = map (\<lambda>(k, e). DeviceUpdated (device e) (channels e)) xs"
    by (rule Cons.IH)
  have s: "deviceNotifications ts (x # xs)
             = DeviceUpdated (device e) (channels e) # channelNotifications ts (dev_externalId (device e)) (channels e)
               @ deviceNotifications ts xs"
    by (simp add: deviceNotifications_def x)
  show ?case unfolding s by (simp add: c t x)
qed

lemma updateNotifications_updated:
  "filter isDeviceUpdated (updateNotifications ts snapshot)
     = map (\<lambda>(k, e). DeviceUpdated (device e) (channels e)) (devices snapshot)"
  by (simp add: updateNotifications_def deviceNotifications_updated roomNotifications_def
        groupNotifications_def filter_empty_conv)

lemma emitDevices_twice:
  "emitted (fst (emitDevices ks (fst (emitDevices ks s))))
     = emitted s @ deviceSignals (m_v2Devices s) (m_v2DeviceChannels s) ks
         @ deviceSignals (m_v2Devices s) (m_v2DeviceChannels s) ks"
  using emitDevices_frame[of ks s]
  by (simp add: emitDevices_emitted)

text \<open>
  Claim C2. Publishing a snapshot to a host that accepts every message sends, after
  the removals, an update for every device of the snapshot, the value of every
  channel that has one, every room and group, and the scene list. Publishing the
  same snapshot again sends all of these again, whether or not anything differs from
  what was sent before; this second pass sends no removal and changes nothing else in
  the sidecar's state. The legacy adapter's emitting loop likewise emits the same
  device updates each time it runs over the same devices and channels. The two
  passes emit identical entities, and nothing is held back as redundant.
\<close>

theorem republished_snapshot_resends_every_update:
  "snd (publishSnapshot acceptAll ts snapshot st) = None
 \<and> publishSnapshot acceptAll ts2 snapshot (fst (publishSnapshot acceptAll ts snapshot st))
     = ((fst (publishSnapshot acceptAll ts snapshot st))
          \<lparr>sent := sent (fst (publishSnapshot acceptAll ts snapshot st)) @ updateNotifications ts2 snapshot\<rparr>, None)
 \<and> filter (\<lambda>n. \<not> isRemoval n) (drop (length (sent st)) (sent (fst (publishSnapshot acceptAll ts snapshot st))))
     = updateNotifications ts snapshot
 \<and> filter isRemoval (updateNotifications ts2 snapshot) = []
 \<and> filter isDeviceUpdated (updateNotifications ts2 snapshot)
     = map (\<lambda>(k, e). DeviceUpdated (device e) (channels e)) (devices snapshot)
 \<and> emitted (fst (emitDevices ks (fst (emitDevices ks s))))
     = emitted s @ deviceSignals (m_v2Devices s) (m_v2DeviceChannels s) ks
         @ deviceSignals (m_v2Devices s) (m_v2DeviceChannels s) ks"
proof -
  have a: "snd (publishSnapshot acceptAll ts snapshot st) = None"
    unfolding acceptAll_eq publishSnapshot_accept by simp
  have b: "publishSnapshot acceptAll ts2 snapshot (fst (publishSnapshot acceptAll ts snapshot st))
     = ((fst (publishSnapshot acceptAll ts snapshot st))
          \<lparr>sent := sent (fst (publishSnapshot acceptAll ts snapshot st)) @ updateNotifications ts2 snapshot\<rparr>, None)"
    unfolding acceptAll_eq by (rule publishSnapshot_again) (rule refl)
  have n: "\<And>xs. filter (\<lambda>n. \<not> isRemoval n) xs = xs \<longleftrightarrow> filter isRemoval xs = []"
    by (auto simp: filter_id_conv filter_empty_conv)
  have k: "filter (\<lambda>n. \<not> isRemoval n) (deviceNotifications ts (devices snapshot)) = deviceNotifications ts (devices snapshot)"
          "filter (\<lambda>n. \<not> isRemoval n) (roomNotifications (rooms snapshot)) = roomNotifications (rooms snapshot)"
          "filter (\<lambda>n. \<not> isRemoval n) (groupNotifications (groups snapshot)) = groupNotifications (groups snapshot)"
    by (simp_all add: n)
  have c: "filter (\<lambda>n. \<not> isRemoval n) (drop (length (sent st)) (sent (fst (publishSnapshot acceptAll ts snapshot st))))
     = updateNotifications ts snapshot"
    unfolding acceptAll_eq publishSnapshot_accept
    by (simp add: k updateNotifications_def filter_empty_conv)
  show ?thesis
    using a b c updateNotifications_no_removal(1)[of ts2 snapshot] updateNotifications_updated[of ts2 snapshot]
          emitDevices_twice[of ks s]
    by (intro conjI)
qed

theorem republished_snapshot_resends_every_update_witness:
  "sent (fst (publishSnapshot acceptAll 2000 snapshot1 (fst (publishSnapshot acceptAll 1000 snapshot1 sidecar1))))
     = sent (fst (publishSnapshot acceptAll 1000 snapshot1 sidecar1)) @ updateNotifications 2000 snapshot1
 \<and> filter isDeviceUpdated (updateNotifications 2000 snapshot1) = [DeviceUpdated (device entry1) (channels entry1)]
 \<and> emitted (fst (emitDevices [''dev2''] (fst (emitDevices [''dev2''] knownTwo))))
     = [deviceUpdated \<lparr> device_id = ''dev2'', device_name = ''Hall'', device_meta = [(''id'', JString ''dev2'')] \<rparr>
          [\<lparr> channel_id = ''on'', channel_name = ''Power'', minValue = 0, maxValue = 1 \<rparr>],
        deviceUpdated \<lparr> device_id = ''dev2'', device_name = ''Hall'', device_meta = [(''id'', JString ''dev2'')] \<rparr>
          [\<lparr> channel_id = ''on'', channel_name = ''Power'', minValue = 0, maxValue = 1 \<rparr>]]"
proof -
  note t = republished_snapshot_resends_every_update[of 1000 snapshot1 sidecar1 2000 "[''dev2'']" knownTwo]
  have e: "emitted knownTwo = []" by (simp add: knownTwo_def adapter0_def)
  have d: "deviceSignals (m_v2Devices knownTwo) (m_v2DeviceChannels knownTwo) [''dev2'']
             = [deviceUpdated \<lparr> device_id = ''dev2'', device_name = ''Hall'', device_meta = [(''id'', JString ''dev2'')] \<rparr>
                  [\<lparr> channel_id = ''on'', channel_name = ''Power'', minValue = 0, maxValue = 1 \<rparr>]]"
    by (simp add: knownTwo_def adapter0_def deviceSignals_def hvalue_def namedDevice_def Let_def)
  have m: "map (\<lambda>(k, e). DeviceUpdated (device e) (channels e)) (devices snapshot1)
             = [DeviceUpdated (device entry1) (channels entry1)]"
    by (simp add: snapshot1_def)
  show ?thesis using t e d m by simp
qed

theorem unchanged_device_is_sent_again:
  "sent (fst (publishSnapshot acceptAll 1000 snapshot1 sidecar1))
     = [DeviceUpdated (device entry1) (channels entry1),
        ChannelStateUpdated ''dev1'' ''on'' (SBool True) 1000,
        ScenesUpdated []]
 \<and> m_devices (fst (publishSnapshot acceptAll 1000 snapshot1 sidecar1)) = m_devices sidecar1
 \<and> sent (fst (publishSnapshot acceptAll 2000 snapshot1 (fst (publishSnapshot acceptAll 1000 snapshot1 sidecar1))))
     = [DeviceUpdated (device entry1) (channels entry1),
        ChannelStateUpdated ''dev1'' ''on'' (SBool True) 1000,
        ScenesUpdated [],
        DeviceUpdated (device entry1) (channels entry1),
        ChannelStateUpdated ''dev1'' ''on'' (SBool True) 2000,
        ScenesUpdated []]"
proof -
  have r: "removedKeys sidecar1 snapshot1 = []"
    by (simp add: removedKeys_def sidecar1_def snapshot1_def sidecar0_def hcontains_def)
  have u: "\<And>ts. updateNotifications ts snapshot1
             = [DeviceUpdated (device entry1) (channels entry1),
                ChannelStateUpdated ''dev1'' ''on'' (SBool True) ts, ScenesUpdated []]"
    by (simp add: updateNotifications_def snapshot1_def deviceNotifications_def channelNotifications_def
          roomNotifications_def groupNotifications_def entry1_def)
  have k: "m_knownRooms sidecar1 = []" "m_knownGroups sidecar1 = []" "sent sidecar1 = []"
          "m_devices sidecar1 = devices snapshot1"
    by (simp_all add: sidecar1_def sidecar0_def snapshot1_def)
  have 1: "sent (fst (publishSnapshot acceptAll 1000 snapshot1 sidecar1)) = updateNotifications 1000 snapshot1"
    unfolding acceptAll_eq publishSnapshot_accept by (simp add: r k updateNotifications_def)
  have 2: "m_devices (fst (publishSnapshot acceptAll 1000 snapshot1 sidecar1)) = m_devices sidecar1"
    unfolding acceptAll_eq publishSnapshot_accept by (simp add: k)
  have 3: "sent (fst (publishSnapshot acceptAll 2000 snapshot1 (fst (publishSnapshot acceptAll 1000 snapshot1 sidecar1))))
             = updateNotifications 1000 snapshot1 @ updateNotifications 2000 snapshot1"
    unfolding acceptAll_eq publishSnapshot_again[OF refl] 1[unfolded acceptAll_eq] by simp
  show ?thesis using 1 2 3 by (simp add: u)
qed

lemma stage6_new_removed:
  "filter isDeviceRemovedSignal (drop (length (emitted s)) (emitted (fst (emitDevicesAndRemovals ids s))))
     = (if snd (emitDevicesAndRemovals ids s) then []
        else map deviceRemoved (filter (\<lambda>k. k \<noteq> []) (filter (\<lambda>x. x \<notin> set ids) (m_knownDeviceExternalIds s))))"
  unfolding stage6_emitted by simp

lemma stage6_pending_known:
  "snd (emitDevicesAndRemovals ids s) \<Longrightarrow>
     m_knownDeviceExternalIds (fst (emitDevicesAndRemovals ids s)) = m_knownDeviceExternalIds s"
  using emitDevices_frame[of "map fst (m_v2Devices s)" s]
  by (cases "emitDevices (map fst (m_v2Devices s)) s") (auto simp: emitDevicesAndRemovals_def Let_def split: bool.splits)

lemma count_filter_removed_signal:
  "count_list xs (deviceRemoved k) = count_list (filter isDeviceRemovedSignal xs) (deviceRemoved k)"
  by (induction xs) auto

lemma count_map_removed_signal: "count_list (map deviceRemoved ks) (deviceRemoved k) = count_list ks k"
  by (induction ks) auto

lemma stage6_removed_exactly_once:
  assumes "\<not> snd (emitDevicesAndRemovals ids s)" "distinct (m_knownDeviceExternalIds s)"
  shows "count_list (drop (length (emitted s)) (emitted (fst (emitDevicesAndRemovals ids s)))) (deviceRemoved k)
           = (if k \<in> set (m_knownDeviceExternalIds s) \<and> k \<notin> set ids \<and> k \<noteq> [] then 1 else 0)"
proof -
  have d: "distinct (filter (\<lambda>k. k \<noteq> []) (filter (\<lambda>x. x \<notin> set ids) (m_knownDeviceExternalIds s)))"
    using assms(2) by simp
  have f: "filter isDeviceRemovedSignal (drop (length (emitted s)) (emitted (fst (emitDevicesAndRemovals ids s))))
             = map deviceRemoved (filter (\<lambda>k. k \<noteq> []) (filter (\<lambda>x. x \<notin> set ids) (m_knownDeviceExternalIds s)))"
    using assms(1) by (simp only: stage6_new_removed if_False)
  show ?thesis
    unfolding count_filter_removed_signal[of "drop _ _"] f count_map_removed_signal count_distinct[OF d]
    by auto
qed

lemma stage6_again_no_removal:
  assumes "m_knownDeviceExternalIds s2 = ids"
  shows "filter isDeviceRemovedSignal (drop (length (emitted s2)) (emitted (fst (emitDevicesAndRemovals ids s2)))) = []"
  unfolding stage6_new_removed assms by (simp add: filter_empty_conv)

text \<open>
  Claim C7. When a publishing pass of the sidecar completes (the host accepts every
  message), each device the sidecar knew that is absent from the snapshot is
  reported removed exactly once in that pass, and no other device is reported
  removed. A following pass over the same snapshot reports no removal, and, the
  snapshot's devices being filed under their own external ids, sends no channel
  value for a device that is absent from it. A pass that fails leaves the known
  devices as they were, so the removals it had delivered are delivered again by the
  next pass. In the legacy adapter the removal stage, when no device is waiting for
  metadata, emits one removal for each known non-empty id outside the snapshot and
  makes the snapshot's ids the known ones, so that the stage run again for the same
  ids removes nothing; while a device waits for metadata nothing is removed and the
  known ids stay.
\<close>

theorem vanished_device_removed_exactly_once:
  "(distinct (map fst (m_devices st)) \<longrightarrow>
      count_list (drop (length (sent st)) (sent (fst (publishSnapshot acceptAll ts snapshot st)))) (DeviceRemoved k)
        = (if k \<in> fst ` set (m_devices st) \<and> k \<notin> fst ` set (devices snapshot) then 1 else 0))
 \<and> publishSnapshot acceptAll ts2 snapshot (fst (publishSnapshot acceptAll ts snapshot st))
     = ((fst (publishSnapshot acceptAll ts snapshot st))
          \<lparr>sent := sent (fst (publishSnapshot acceptAll ts snapshot st)) @ updateNotifications ts2 snapshot\<rparr>, None)
 \<and> filter isDeviceRemoved (updateNotifications ts2 snapshot) = []
 \<and> ((\<forall>(k2, e) \<in> set (devices snapshot). dev_externalId (device e) = k2) \<and> k \<notin> fst ` set (devices snapshot) \<longrightarrow>
      Some k \<notin> channelStateDevice ` set (updateNotifications ts2 snapshot))
 \<and> (snd (publishSnapshot sink ts snapshot st) \<noteq> None \<longrightarrow>
      m_devices (fst (publishSnapshot sink ts snapshot st)) = m_devices st)
 \<and> (\<not> snd (emitDevicesAndRemovals ids s) \<and> distinct (m_knownDeviceExternalIds s) \<longrightarrow>
      count_list (drop (length (emitted s)) (emitted (fst (emitDevicesAndRemovals ids s)))) (deviceRemoved k)
        = (if k \<in> set (m_knownDeviceExternalIds s) \<and> k \<notin> set ids \<and> k \<noteq> [] then 1 else 0)
    \<and> m_knownDeviceExternalIds (fst (emitDevicesAndRemovals ids s)) = ids)
 \<and> (m_knownDeviceExternalIds s2 = ids \<longrightarrow>
      filter isDeviceRemovedSignal (drop (length (emitted s2)) (emitted (fst (emitDevicesAndRemovals ids s2)))) = [])
 \<and> (snd (emitDevicesAndRemovals ids s) \<longrightarrow>
      filter isDeviceRemovedSignal (drop (length (emitted s)) (emitted (fst (emitDevicesAndRemovals ids s)))) = []
    \<and> m_knownDeviceExternalIds (fst (emitDevicesAndRemovals ids s)) = m_knownDeviceExternalIds s)"
proof -
  have 1: "distinct (map fst (m_devices st)) \<longrightarrow>
      count_list (drop (length (sent st)) (sent (fst (publishSnapshot acceptAll ts snapshot st)))) (DeviceRemoved k)
        = (if k \<in> fst ` set (m_devices st) \<and> k \<notin> fst ` set (devices snapshot) then 1 else 0)"
    unfolding acceptAll_eq using removed_exactly_once[of st ts snapshot k] by blast
  have 2: "publishSnapshot acceptAll ts2 snapshot (fst (publishSnapshot acceptAll ts snapshot st))
     = ((fst (publishSnapshot acceptAll ts snapshot st))
          \<lparr>sent := sent (fst (publishSnapshot acceptAll ts snapshot st)) @ updateNotifications ts2 snapshot\<rparr>, None)"
    unfolding acceptAll_eq by (rule publishSnapshot_again) (rule refl)
  have 4: "(\<forall>(k2, e) \<in> set (devices snapshot). dev_externalId (device e) = k2) \<and> k \<notin> fst ` set (devices snapshot) \<longrightarrow>
      Some k \<notin> channelStateDevice ` set (updateNotifications ts2 snapshot)"
    using no_channel_state_for_absent_device[of snapshot k ts2] by blast
  have 5: "snd (publishSnapshot sink ts snapshot st) \<noteq> None \<longrightarrow>
      m_devices (fst (publishSnapshot sink ts snapshot st)) = m_devices st"
    using publishSnapshot_failed_keeps_devices[of sink ts snapshot st] by blast
  have 6: "\<not> snd (emitDevicesAndRemovals ids s) \<and> distinct (m_knownDeviceExternalIds s) \<longrightarrow>
      count_list (drop (length (emitted s)) (emitted (fst (emitDevicesAndRemovals ids s)))) (deviceRemoved k)
        = (if k \<in> set (m_knownDeviceExternalIds s) \<and> k \<notin> set ids \<and> k \<noteq> [] then 1 else 0)
    \<and> m_knownDeviceExternalIds (fst (emitDevicesAndRemovals ids s)) = ids"
    using stage6_removed_exactly_once[of ids s k] stage6_known[of ids s] by blast
  have 7: "m_knownDeviceExternalIds s2 = ids \<longrightarrow>
      filter isDeviceRemovedSignal (drop (length (emitted s2)) (emitted (fst (emitDevicesAndRemovals ids s2)))) = []"
    using stage6_again_no_removal[of s2 ids] by blast
  have 8: "snd (emitDevicesAndRemovals ids s) \<longrightarrow>
      filter isDeviceRemovedSignal (drop (length (emitted s)) (emitted (fst (emitDevicesAndRemovals ids s)))) = []
    \<and> m_knownDeviceExternalIds (fst (emitDevicesAndRemovals ids s)) = m_knownDeviceExternalIds s"
    using stage6_new_removed[of s ids] stage6_pending_known[of ids s] by simp
  show ?thesis
    using 1 2 updateNotifications_no_removal(2)[of ts2 snapshot] 4 5 6 7 8 by (intro conjI)
qed

theorem vanished_device_removed_exactly_once_witness:
  "count_list (sent (fst (publishSnapshot acceptAll 1000 emptySnapshot sidecar1))) (DeviceRemoved ''dev1'') = 1
 \<and> sent (fst (publishSnapshot acceptAll 2000 emptySnapshot (fst (publishSnapshot acceptAll 1000 emptySnapshot sidecar1))))
     = sent (fst (publishSnapshot acceptAll 1000 emptySnapshot sidecar1)) @ [ScenesUpdated []]
 \<and> Some ''dev1'' \<notin> channelStateDevice ` set (updateNotifications 2000 emptySnapshot)
 \<and> m_devices (fst (publishSnapshot rejectScenes 1000 emptySnapshot sidecar1)) = [(''dev1'', entry1)]
 \<and> count_list (emitted (fst (emitDevicesAndRemovals [''dev2''] knownTwo))) (deviceRemoved ''dev1'') = 1
 \<and> m_knownDeviceExternalIds (fst (emitDevicesAndRemovals [''dev2''] knownTwo)) = [''dev2'']"
proof -
  note t = vanished_device_removed_exactly_once
             [of sidecar1 1000 emptySnapshot "''dev1''" 2000 rejectScenes "[''dev2'']" knownTwo
                 "fst (emitDevicesAndRemovals [''dev2''] knownTwo)"]
  have h1: "distinct (map fst (m_devices sidecar1))" "sent sidecar1 = []"
           "''dev1'' \<in> fst ` set (m_devices sidecar1) \<and> ''dev1'' \<notin> fst ` set (devices emptySnapshot)"
           "m_devices sidecar1 = [(''dev1'', entry1)]"
    by (simp_all add: sidecar1_def sidecar0_def emptySnapshot_def)
  have h2: "(\<forall>(k2, e) \<in> set (devices emptySnapshot). dev_externalId (device e) = k2)
              \<and> ''dev1'' \<notin> fst ` set (devices emptySnapshot)"
    by (simp add: emptySnapshot_def)
  have h3: "snd (publishSnapshot rejectScenes 1000 emptySnapshot sidecar1) \<noteq> None"
    by (simp add: publishSnapshot_def sidecar1_def sidecar0_def emptySnapshot_def send_def rejectScenes_def hcontains_def)
  have h4: "\<not> snd (emitDevicesAndRemovals [''dev2''] knownTwo)"
    by (simp add: emitDevicesAndRemovals_def knownTwo_def adapter0_def hvalue_def Let_def emit_def)
  have h5: "distinct (m_knownDeviceExternalIds knownTwo)" "emitted knownTwo = []"
           "''dev1'' \<in> set (m_knownDeviceExternalIds knownTwo) \<and> ''dev1'' \<notin> set [''dev2''] \<and> ''dev1'' \<noteq> []"
    by (simp_all add: knownTwo_def adapter0_def)
  have u: "updateNotifications 2000 emptySnapshot = [ScenesUpdated []]"
    by (simp add: updateNotifications_def emptySnapshot_def deviceNotifications_def roomNotifications_def
          groupNotifications_def)
  show ?thesis using t h1 h2 h3 h4 h5 by (simp add: u)
qed

theorem removal_repeated_after_failed_pass:
  "publishSnapshot rejectScenes 1000 emptySnapshot sidecar1
     = (sidecar1\<lparr>sent := [DeviceRemoved ''dev1''], m_lightResourceByDevice := []\<rparr>, Some ''pipe closed'')
 \<and> sent (fst (publishSnapshot acceptAll 2000 emptySnapshot
            (fst (publishSnapshot rejectScenes 1000 emptySnapshot sidecar1))))
     = [DeviceRemoved ''dev1'', DeviceRemoved ''dev1'', ScenesUpdated []]"
  by (simp add: publishSnapshot_def sidecar1_def sidecar0_def emptySnapshot_def send_def rejectScenes_def
        acceptAll_def hcontains_def)

section \<open>Properties of the scene handling\<close>

text \<open>The names of the scenes the legacy adapter stores, and the scenes the sidecar's snapshot holds.\<close>

lemma update_values: "snd ` set (AList.update k v al) \<subseteq> insert v (snd ` set al)"
  by (induction al) auto

lemma name_description:
  "sc_name (case x of None \<Rightarrow> a | Some (JString d) \<Rightarrow> a\<lparr>sc_description := d\<rparr> | Some _ \<Rightarrow> a) = sc_name a"
  by (cases x) (simp_all split: json.splits)

lemma name_state:
  "sc_name (case x of None \<Rightarrow> a | Some v \<Rightarrow> (if P v then a\<lparr>sc_state := f v\<rparr> else a)) = sc_name a"
  by (cases x) simp_all

lemma handleV2SceneResource_cases:
  "handleV2SceneResource resObj s = s
   \<or> (\<exists>sc. handleV2SceneResource resObj s = s\<lparr>m_v2Scenes := AList.update (toString (jvalue resObj ''id'')) sc (m_v2Scenes s)\<rparr>
          \<and> trimmed (sc_name sc) \<noteq> [])"
proof (cases "toString (jvalue resObj ''id'') = []")
  case True
  then show ?thesis by (simp add: handleV2SceneResource_def)
next
  case id: False
  define scene0 where "scene0 = (hvalue (m_v2Scenes s) (toString (jvalue resObj ''id'')) defaultScene)\<lparr>sc_id := toString (jvalue resObj ''id'')\<rparr>"
  define sceneName where "sceneName = firstNonEmptyString (toObject (jvalue resObj ''metadata'')) [''name'']"
  define scene1 where "scene1 = (if trimmed sceneName \<noteq> [] then scene0\<lparr>sc_name := sceneName\<rparr> else scene0)"
  show ?thesis
  proof (cases "trimmed (sc_name scene1) = []")
    case True
    then have "handleV2SceneResource resObj s = s"
      using id unfolding handleV2SceneResource_def Let_def scene1_def scene0_def sceneName_def by simp
    then show ?thesis by simp
  next
    case False
    show ?thesis
      apply (rule disjI2)
      using id False
      unfolding handleV2SceneResource_def Let_def scene1_def[symmetric, unfolded scene0_def sceneName_def]
      apply (simp only: if_False if_True)
      apply (rule exI, rule conjI, rule refl)
      apply (simp add: name_description name_state if_distrib[of sc_name])
      done
  qed
qed
lemma handleV2SceneResource_names:
  assumes "\<forall>sc \<in> snd ` set (m_v2Scenes s). trimmed (sc_name sc) \<noteq> []"
  shows "\<forall>sc \<in> snd ` set (m_v2Scenes (handleV2SceneResource resObj s)). trimmed (sc_name sc) \<noteq> []"
proof -
  from handleV2SceneResource_cases[of resObj s] show ?thesis
  proof
    assume "handleV2SceneResource resObj s = s"
    then show ?thesis using assms by simp
  next
    assume "\<exists>sc. handleV2SceneResource resObj s
                   = s\<lparr>m_v2Scenes := AList.update (toString (jvalue resObj ''id'')) sc (m_v2Scenes s)\<rparr>
                 \<and> trimmed (sc_name sc) \<noteq> []"
    then obtain sc where u: "handleV2SceneResource resObj s
                   = s\<lparr>m_v2Scenes := AList.update (toString (jvalue resObj ''id'')) sc (m_v2Scenes s)\<rparr>"
        and n: "trimmed (sc_name sc) \<noteq> []" by blast
    have sub: "snd ` set (m_v2Scenes (handleV2SceneResource resObj s)) \<subseteq> insert sc (snd ` set (m_v2Scenes s))"
      unfolding u using update_values[of "toString (jvalue resObj ''id'')" sc "m_v2Scenes s"] by simp
    show ?thesis
    proof
      fix x assume "x \<in> snd ` set (m_v2Scenes (handleV2SceneResource resObj s))"
      then have "x \<in> insert sc (snd ` set (m_v2Scenes s))" using sub by blast
      then show "trimmed (sc_name x) \<noteq> []" using n assms by blast
    qed
  qed
qed

lemma handleScenes_names:
  "\<forall>sc \<in> snd ` set (m_v2Scenes s). trimmed (sc_name sc) \<noteq> [] \<Longrightarrow>
     \<forall>sc \<in> snd ` set (m_v2Scenes (handleScenes arr s)). trimmed (sc_name sc) \<noteq> []"
proof (induction arr arbitrary: s)
  case Nil
  then show ?case by simp
next
  case (Cons v rest)
  show ?case
  proof (cases "isObject v")
    case True
    then show ?thesis
      using Cons.IH[OF handleV2SceneResource_names[OF Cons.prems, of "toObject v"]] by simp
  next
    case False
    then show ?thesis using Cons.IH[OF Cons.prems] by simp
  qed
qed

lemma scenes_finalize [simp]: "m_v2Scenes (fst (finalizeV2SnapshotIfReady s)) = m_v2Scenes s"
  by (simp add: finalizeV2SnapshotIfReady_def)

lemma scene_snapshot_names:
  "\<forall>sc \<in> snd ` set (m_v2Scenes (fst (handleV2ResourceSnapshot ''scene'' arr s))). trimmed (sc_name sc) \<noteq> []"
proof -
  let ?s1 = "s\<lparr>m_v2SnapshotByType := AList.update ''scene'' arr (m_v2SnapshotByType s),
                m_pendingV2ResourceTypes := m_pendingV2ResourceTypes s |-| {|''scene''|},
                m_v2ResourceRetryCount := AList.delete ''scene'' (m_v2ResourceRetryCount s),
                m_v2Scenes := []\<rparr>"
  have e: "\<forall>sc \<in> snd ` set (m_v2Scenes ?s1). trimmed (sc_name sc) \<noteq> []" by simp
  have m: "m_v2Scenes (fst (handleV2ResourceSnapshot ''scene'' arr s)) = m_v2Scenes (handleScenes arr ?s1)"
    by (simp add: handleV2ResourceSnapshot_def Let_def)
  show ?thesis unfolding m using e by (rule handleScenes_names)
qed

lemma dropWhile_id: "xs = [] \<or> \<not> P (hd xs) \<Longrightarrow> dropWhile P xs = xs"
  by (cases xs) auto

lemma trimmed_idem: "trimmed (trimmed s) = trimmed s"
proof (cases "trimmed s = []")
  case True
  have e: "trimmed [] = []" by (simp add: trimmed_def)
  show ?thesis unfolding True e by (rule refl)
next
  case False
  let ?a = "dropWhile isSpace s"
  let ?b = "dropWhile isSpace (rev ?a)"
  have bne: "?b \<noteq> []" using False by (simp add: trimmed_def)
  then have ane: "?a \<noteq> []" by (metis dropWhile.simps(1) rev.simps(1))
  have hb: "\<not> isSpace (hd ?b)" using bne by (rule hd_dropWhile)
  have ha: "\<not> isSpace (hd ?a)" using ane by (rule hd_dropWhile)
  have lb: "last ?b = hd ?a"
  proof -
    obtain ys zs where "rev ?a = ys @ zs" "?b = zs" 
      by (metis takeWhile_dropWhile_id)
    then have "last (rev ?a) = last ?b" using bne by simp
    then show ?thesis using ane by (simp add: last_rev)
  qed
  have t: "trimmed s = rev ?b" by (simp add: trimmed_def)
  have h1: "hd (rev ?b) = last ?b" using bne by (simp add: hd_rev)
  have d1: "dropWhile isSpace (rev ?b) = rev ?b"
    using h1 lb ha by (intro dropWhile_id) simp
  have d2: "dropWhile isSpace ?b = ?b" using hb by (intro dropWhile_id) simp
  show ?thesis unfolding t by (simp add: trimmed_def[of "rev ?b"] d1 d2)
qed

lemma handleV2SceneResource_named:
  assumes "toString (jvalue resObj ''id'') \<noteq> []"
      and "jvalue (toObject (jvalue resObj ''metadata'')) ''name'' = JString n" "trimmed n \<noteq> []"
  shows "\<exists>sc. map_of (m_v2Scenes (handleV2SceneResource resObj s)) (toString (jvalue resObj ''id'')) = Some sc
             \<and> sc_name sc = trimmed n"
proof -
  define scene0 where "scene0 = (hvalue (m_v2Scenes s) (toString (jvalue resObj ''id'')) defaultScene)\<lparr>sc_id := toString (jvalue resObj ''id'')\<rparr>"
  have f: "firstNonEmptyString (toObject (jvalue resObj ''metadata'')) [''name''] = trimmed n"
    using assms(2,3) by simp
  have t: "trimmed (trimmed n) \<noteq> []" using assms(3) by (simp add: trimmed_idem)
  show ?thesis
    using assms(1) t
    unfolding handleV2SceneResource_def Let_def f
    apply (simp only: if_False if_True simp_thms)
    apply (simp add: update_conv' name_description name_state if_distrib[of sc_name])
    done
qed

lemma buildSnapshot_scenes_member:
  assumes "entry \<in> set arr" "isObject entry" "toString (jvalue (toObject entry) ''id'') \<noteq> []"
  shows "\<exists>sc \<in> set (buildSnapshot_scenes arr).
           scene_externalId sc = toString (jvalue (toObject entry) ''id'')
         \<and> scene_name sc = toString (jvalue (toObject (jvalue (toObject entry) ''metadata'')) ''name'')"
  using assms by (induction arr) (auto simp: Let_def)

lemma publishSnapshot_last:
  "last (sent (fst (publishSnapshot (\<lambda>n. None) ts snapshot st))) = ScenesUpdated (scenes snapshot)"
  unfolding publishSnapshot_accept by simp

text \<open>
  Claim C5. The legacy adapter keeps the rule: a scene resource whose name is empty
  (after trimming) is not stored, so every scene in \<open>m_v2Scenes\<close>, from which
  \<open>scenesUpdated\<close> is emitted, has a non-empty name, and a scene resource with an id
  and a non-empty name is stored under its trimmed name. The sidecar does not keep
  it: the scene loop of \<open>buildSnapshot\<close> tests the id only, so a scene resource with an
  id and an empty name becomes a scene of the snapshot with the empty name, and
  \<open>publishSnapshot\<close> sends the snapshot's scene list to the host as it is.
\<close>

theorem scene_with_empty_name_kept_by_sidecar:
  "((\<forall>sc \<in> snd ` set (m_v2Scenes s). trimmed (sc_name sc) \<noteq> []) \<longrightarrow>
      (\<forall>sc \<in> snd ` set (m_v2Scenes (handleV2SceneResource resObj s)). trimmed (sc_name sc) \<noteq> []))
 \<and> (\<forall>sc \<in> snd ` set (m_v2Scenes (fst (handleV2ResourceSnapshot ''scene'' arr s))). trimmed (sc_name sc) \<noteq> [])
 \<and> (toString (jvalue resObj ''id'') \<noteq> []
      \<and> jvalue (toObject (jvalue resObj ''metadata'')) ''name'' = JString n \<and> trimmed n \<noteq> [] \<longrightarrow>
      (\<exists>sc. map_of (m_v2Scenes (handleV2SceneResource resObj s)) (toString (jvalue resObj ''id'')) = Some sc
            \<and> sc_name sc = trimmed n))
 \<and> (entry \<in> set (sceneData arrays) \<and> isObject entry \<and> toString (jvalue (toObject entry) ''id'') \<noteq> [] \<longrightarrow>
      (\<exists>sc \<in> set (scenes (buildSnapshot derive arrays)).
           scene_externalId sc = toString (jvalue (toObject entry) ''id'')
         \<and> scene_name sc = toString (jvalue (toObject (jvalue (toObject entry) ''metadata'')) ''name'')))
 \<and> last (sent (fst (publishSnapshot acceptAll ts snapshot st))) = ScenesUpdated (scenes snapshot)"
proof -
  have 1: "(\<forall>sc \<in> snd ` set (m_v2Scenes s). trimmed (sc_name sc) \<noteq> []) \<longrightarrow>
      (\<forall>sc \<in> snd ` set (m_v2Scenes (handleV2SceneResource resObj s)). trimmed (sc_name sc) \<noteq> [])"
    using handleV2SceneResource_names[of s resObj] by blast
  have 3: "toString (jvalue resObj ''id'') \<noteq> []
      \<and> jvalue (toObject (jvalue resObj ''metadata'')) ''name'' = JString n \<and> trimmed n \<noteq> [] \<longrightarrow>
      (\<exists>sc. map_of (m_v2Scenes (handleV2SceneResource resObj s)) (toString (jvalue resObj ''id'')) = Some sc
            \<and> sc_name sc = trimmed n)"
    using handleV2SceneResource_named[of resObj n s] by blast
  have 4: "entry \<in> set (sceneData arrays) \<and> isObject entry \<and> toString (jvalue (toObject entry) ''id'') \<noteq> [] \<longrightarrow>
      (\<exists>sc \<in> set (scenes (buildSnapshot derive arrays)).
           scene_externalId sc = toString (jvalue (toObject entry) ''id'')
         \<and> scene_name sc = toString (jvalue (toObject (jvalue (toObject entry) ''metadata'')) ''name''))"
    using buildSnapshot_scenes_member[of entry "sceneData arrays"] by (simp add: buildSnapshot_def)
  have 5: "last (sent (fst (publishSnapshot acceptAll ts snapshot st))) = ScenesUpdated (scenes snapshot)"
    unfolding acceptAll_eq by (rule publishSnapshot_last)
  show ?thesis using 1 scene_snapshot_names[of arr s] 3 4 5 by (intro conjI)
qed

theorem scene_with_empty_name_kept_by_sidecar_witness:
  "map sc_name (map snd (m_v2Scenes (fst (handleV2ResourceSnapshot ''scene'' [sceneStub, sceneNamed] adapter0))))
     = [''Relax'']
 \<and> map scene_name (scenes (buildSnapshot noDevices sceneArrays)) = ['''', ''Relax'']
 \<and> (\<exists>sc \<in> set (scenes (buildSnapshot noDevices sceneArrays)). scene_externalId sc = ''scene1'' \<and> scene_name sc = [])
 \<and> last (sent (fst (publishSnapshot acceptAll 1000 (buildSnapshot noDevices sceneArrays) sidecar0)))
     = ScenesUpdated (scenes (buildSnapshot noDevices sceneArrays))"
proof -
  note t = scene_with_empty_name_kept_by_sidecar
             [of adapter0 "toObject sceneNamed" "[sceneStub, sceneNamed]" "''Relax''" sceneStub sceneArrays
                 noDevices 1000 "buildSnapshot noDevices sceneArrays" sidecar0]
  have h: "sceneStub \<in> set (sceneData sceneArrays) \<and> isObject sceneStub
             \<and> toString (jvalue (toObject sceneStub) ''id'') \<noteq> []"
    by (simp add: sceneArrays_def sceneStub_def jvalue_def)
  have v: "toString (jvalue (toObject sceneStub) ''id'') = ''scene1''"
          "toString (jvalue (toObject (jvalue (toObject sceneStub) ''metadata'')) ''name'') = []"
    by (simp_all add: sceneStub_def jvalue_def)
  have a: "map sc_name (map snd (m_v2Scenes (fst (handleV2ResourceSnapshot ''scene'' [sceneStub, sceneNamed] adapter0))))
     = [''Relax'']"
    by (simp add: handleV2ResourceSnapshot_def handleV2SceneResource_def adapter0_def sceneStub_def sceneNamed_def
          jvalue_def hvalue_def defaultScene_def trimmed_def isSpace_def Let_def finalizeV2SnapshotIfReady_def
          parseSceneState_def hasAction_def)
  have b: "map scene_name (scenes (buildSnapshot noDevices sceneArrays)) = ['''', ''Relax'']"
    by (simp add: buildSnapshot_def noDevices_def sceneArrays_def sceneStub_def sceneNamed_def jvalue_def Let_def)
  show ?thesis using t h v a b by simp
qed

section \<open>Properties of failed snapshot fetches\<close>

text \<open>
  The sidecar's poll under a failing fetch, and the legacy adapter's retry and
  give-up branches with the guard in front of the rebuild.
\<close>

lemma pollBridge_core_failure:
  assumes h: "effectiveHost (env_settings env) \<noteq> []" "trimmed (appKey (env_settings env)) \<noteq> []"
      and f: "firstFailure (env_fetch env) coreTypes = Some e"
  shows "pollBridge derive env st = (st, Some e)"
proof (cases "env_fetch env ''device''")
  case (Inl a)
  then show ?thesis using h f by (simp add: pollBridge_def coreTypes_def)
next
  case d: (Inr a)
  show ?thesis
  proof (cases "env_fetch env ''light''")
    case (Inl b)
    then show ?thesis using h f d by (simp add: pollBridge_def coreTypes_def)
  next
    case l: (Inr b)
    show ?thesis
    proof (cases "env_fetch env ''room''")
      case (Inl c)
      then show ?thesis using h f d l by (simp add: pollBridge_def coreTypes_def)
    next
      case r: (Inr c)
      show ?thesis
      proof (cases "env_fetch env ''zone''")
        case (Inl z)
        then show ?thesis using h f d l r by (simp add: pollBridge_def coreTypes_def)
      next
        case z: (Inr z)
        show ?thesis
        proof (cases "env_fetch env ''scene''")
          case (Inl sc)
          then show ?thesis using h f d l r z by (simp add: pollBridge_def coreTypes_def)
        next
          case (Inr sc)
          then show ?thesis using h f d l r z by (simp add: pollBridge_def coreTypes_def)
        qed
      qed
    qed
  qed
qed

lemma firstFailure_exists:
  "ty \<in> set tys \<Longrightarrow> fetch ty = Inl e \<Longrightarrow> firstFailure fetch tys \<noteq> None"
  by (induction tys) (auto split: sum.splits)

lemma pollBridge_secondary_failure:
  assumes ty: "ty \<in> set secondaryTypes" and fl: "env_fetch env ty = Inl e"
  shows "pollBridge derive env st = pollBridge derive (env\<lparr>env_fetch := (env_fetch env)(ty := Inr [])\<rparr>) st"
proof -
  let ?f = "(env_fetch env)(ty := Inr [])"
  have oe: "\<And>x. orEmpty (?f x) = orEmpty (env_fetch env x)"
    using fl by (simp add: orEmpty_def)
  have core: "?f ''device'' = env_fetch env ''device''" "?f ''light'' = env_fetch env ''light''"
             "?f ''room'' = env_fetch env ''room''" "?f ''zone'' = env_fetch env ''zone''"
             "?f ''scene'' = env_fetch env ''scene''"
             "?f ''zigbee_device_discovery'' = env_fetch env ''zigbee_device_discovery''"
    using ty by (auto simp: secondaryTypes_def)
  have sel: "env_fetch (env\<lparr>env_fetch := ?f\<rparr>) = ?f"
            "env_settings (env\<lparr>env_fetch := ?f\<rparr>) = env_settings env"
            "env_sink (env\<lparr>env_fetch := ?f\<rparr>) = env_sink env"
            "env_now (env\<lparr>env_fetch := ?f\<rparr>) = env_now env"
    by simp_all
  show ?thesis
    unfolding pollBridge_def sel oe core by (rule refl)
qed

lemma tick_core_failure:
  assumes "m_hasBootstrap st" "m_nextPollDueMs st \<le> env_now env"
      and "effectiveHost (env_settings env) \<noteq> []" "trimmed (appKey (env_settings env)) \<noteq> []"
      and "firstFailure (env_fetch env) coreTypes = Some e" "e \<noteq> []"
      and "\<forall>n. env_sink env n = None"
  shows "sent (tick derive env st)
           = sent st @ (if m_connected_ipc st then [ConnectionStateChanged False] else []) @ [ErrorMessage e]
       \<and> m_devices (tick derive env st) = m_devices st
       \<and> m_nextPollDueMs (tick derive env st) = env_now env + max 1000 (m_retryIntervalMs st)"
  using assms
  by (simp add: tick_def pollBridge_core_failure setConnectionState_def send_def Let_def)

lemma snapshot_failure_retry:
  assumes "CHR ''/'' \<notin> set rt" "rt \<noteq> []"
      and "hvalue (m_v2ResourceRetryCount s) rt 0 = attempt" "0 \<le> attempt" "attempt < 3"
  shows "onNetworkReplyFinished_error rt s =
           ((if \<not> m_stopping s then setConnected False s else s)
              \<lparr>m_pendingV2ResourceTypes := m_pendingV2ResourceTypes s |-| {|rt|},
               m_v2ResourceRetryCount := AList.update rt (attempt + 1) (m_v2ResourceRetryCount s),
               requests := requests s @ [GetSnapshotLater rt (1000 * (attempt + 1))]\<rparr>, False)"
  using assms
  by (simp add: onNetworkReplyFinished_error_def Let_def setConnected_def emit_def
        requestV2ResourceSnapshot_def kMaxV2ResourceSnapshotRetries_def kV2ResourceRetryBaseDelayMs_def)

lemma snapshot_failure_exhausted:
  assumes "CHR ''/'' \<notin> set rt" "rt \<noteq> []"
      and "hvalue (m_v2ResourceRetryCount s) rt 0 \<ge> 3"
  shows "onNetworkReplyFinished_error rt s =
           finalizeV2SnapshotIfReady
             ((if \<not> m_stopping s then setConnected False s else s)
                \<lparr>m_pendingV2ResourceTypes := m_pendingV2ResourceTypes s |-| {|rt|},
                 m_v2ResourceRetryCount := AList.delete rt (m_v2ResourceRetryCount s),
                 m_v2SnapshotFailedThisCycle := True,
                 m_v2SnapshotByType := AList.update rt [] (m_v2SnapshotByType s),
                 m_v2SnapshotPending := (if m_v2SnapshotPending s > 0 then m_v2SnapshotPending s - 1
                                         else m_v2SnapshotPending s)\<rparr>)"
  using assms
  by (simp add: onNetworkReplyFinished_error_def Let_def setConnected_def emit_def
        kMaxV2ResourceSnapshotRetries_def)

lemma finalize_never_rebuilds_failed_cycle:
  "m_v2SnapshotFailedThisCycle s \<Longrightarrow> snd (finalizeV2SnapshotIfReady s) = False"
  by (simp add: finalizeV2SnapshotIfReady_def)

lemma exhausted_marks_degraded:
  assumes "CHR ''/'' \<notin> set rt" "rt \<noteq> []"
      and "hvalue (m_v2ResourceRetryCount s) rt 0 \<ge> 3"
  shows "hvalue (m_v2SnapshotByType (fst (onNetworkReplyFinished_error rt s))) rt d = []"
    and "snd (onNetworkReplyFinished_error rt s) = False"
    and "m_v2SnapshotFailedThisCycle (fst (onNetworkReplyFinished_error rt s))
           \<or> m_v2BootstrapDone (fst (onNetworkReplyFinished_error rt s))"
    and "requests (fst (onNetworkReplyFinished_error rt s)) = requests s"
  unfolding snapshot_failure_exhausted[OF assms]
  by (simp_all add: finalizeV2SnapshotIfReady_def setConnected_def emit_def hvalue_def update_conv')

lemma degraded_cycle_skips_rebuild:
  assumes "CHR ''/'' \<notin> set rt" "rt \<noteq> []"
      and "hvalue (m_v2ResourceRetryCount s) rt 0 \<ge> 3"
      and "m_v2SnapshotPending s = 1" "m_pendingV2DeviceFetch s = {||}" "m_v2DeviceFetchQueue s = []"
      and "\<not> m_v2BootstrapDone s"
  shows "onNetworkReplyFinished_error rt s =
           ((if \<not> m_stopping s then setConnected False s else s)
              \<lparr>m_pendingV2ResourceTypes := m_pendingV2ResourceTypes s |-| {|rt|},
               m_v2ResourceRetryCount := AList.delete rt (m_v2ResourceRetryCount s),
               m_v2SnapshotFailedThisCycle := False,
               m_v2SnapshotByType := AList.update rt [] (m_v2SnapshotByType s),
               m_v2SnapshotPending := 0,
               m_v2BootstrapDone := True\<rparr>, False)"
  unfolding snapshot_failure_exhausted[OF assms(1-3)]
  using assms(4-7)
  by (simp add: finalizeV2SnapshotIfReady_def setConnected_def emit_def)
lemma rebuildBlocked_finalize:
  "rebuildBlocked s \<Longrightarrow> snd (finalizeV2SnapshotIfReady s) = False \<and> rebuildBlocked (fst (finalizeV2SnapshotIfReady s))"
  by (auto simp: rebuildBlocked_def finalizeV2SnapshotIfReady_def)

lemma rebuildBlocked_frame:
  "m_v2SnapshotFailedThisCycle s' = m_v2SnapshotFailedThisCycle s \<Longrightarrow> m_v2BootstrapDone s' = m_v2BootstrapDone s
     \<Longrightarrow> rebuildBlocked s' = rebuildBlocked s"
  by (simp add: rebuildBlocked_def)

lemma flags_setConnected [simp]:
  "m_v2SnapshotFailedThisCycle (setConnected c s) = m_v2SnapshotFailedThisCycle s"
  "m_v2BootstrapDone (setConnected c s) = m_v2BootstrapDone s"
  by (simp_all add: setConnected_def emit_def)

lemma flags_startV2DeviceFetch [simp]:
  "m_v2SnapshotFailedThisCycle (snd (startV2DeviceFetch d s)) = m_v2SnapshotFailedThisCycle s"
  "m_v2BootstrapDone (snd (startV2DeviceFetch d s)) = m_v2BootstrapDone s"
  by (simp_all add: startV2DeviceFetch_def)

lemma flags_fetchV2DeviceResource [simp]:
  "m_v2SnapshotFailedThisCycle (fetchV2DeviceResource d s) = m_v2SnapshotFailedThisCycle s"
  "m_v2BootstrapDone (fetchV2DeviceResource d s) = m_v2BootstrapDone s"
  by (simp_all add: fetchV2DeviceResource_def)

lemma flags_loop:
  "m_v2SnapshotFailedThisCycle (snd (startNextQueued_loop q s)) = m_v2SnapshotFailedThisCycle s
 \<and> m_v2BootstrapDone (snd (startNextQueued_loop q s)) = m_v2BootstrapDone s"
  by (induction q arbitrary: s) (simp_all add: Let_def)

lemma flags_startNextQueued [simp]:
  "m_v2SnapshotFailedThisCycle (startNextQueuedV2DeviceFetch s) = m_v2SnapshotFailedThisCycle s"
  "m_v2BootstrapDone (startNextQueuedV2DeviceFetch s) = m_v2BootstrapDone s"
  using flags_loop[of "m_v2DeviceFetchQueue s" s]
  by (cases "startNextQueued_loop (m_v2DeviceFetchQueue s) s"; auto simp: startNextQueuedV2DeviceFetch_def split: bool.splits)+

lemma flags_sendRequest [simp]:
  "m_v2SnapshotFailedThisCycle (sendRequest r s) = m_v2SnapshotFailedThisCycle s"
  "m_v2BootstrapDone (sendRequest r s) = m_v2BootstrapDone s"
  by (simp_all add: sendRequest_def)

lemma flags_requestV2ResourceSnapshot [simp]:
  "m_v2SnapshotFailedThisCycle (requestV2ResourceSnapshot r d s) = m_v2SnapshotFailedThisCycle s"
  "m_v2BootstrapDone (requestV2ResourceSnapshot r d s) = m_v2BootstrapDone s"
  by (simp_all add: requestV2ResourceSnapshot_def)

lemma flags_handleV2SceneResource [simp]:
  "m_v2SnapshotFailedThisCycle (handleV2SceneResource obj s) = m_v2SnapshotFailedThisCycle s"
  "m_v2BootstrapDone (handleV2SceneResource obj s) = m_v2BootstrapDone s"
  by (simp_all add: handleV2SceneResource_def Let_def)

lemma flags_handleScenes [simp]:
  "m_v2SnapshotFailedThisCycle (handleScenes xs s) = m_v2SnapshotFailedThisCycle s"
  "m_v2BootstrapDone (handleScenes xs s) = m_v2BootstrapDone s"
  by (induction xs arbitrary: s) simp_all

lemma rebuildBlocked_error:
  assumes "rebuildBlocked s"
  shows "snd (onNetworkReplyFinished_error p s) = False \<and> rebuildBlocked (fst (onNetworkReplyFinished_error p s))"
proof -
  let ?s = "if \<not> m_stopping s then setConnected False s else s"
  have b: "rebuildBlocked ?s" using assms by (simp add: rebuildBlocked_def)
  show ?thesis
  proof (cases "CHR ''/'' \<notin> set p \<and> p \<noteq> [] \<and> \<not> hvalue (m_v2ResourceRetryCount ?s) p 0 < kMaxV2ResourceSnapshotRetries")
    case True
    let ?t = "?s\<lparr>m_pendingV2ResourceTypes := m_pendingV2ResourceTypes ?s |-| {|p|},
                  m_v2ResourceRetryCount := AList.delete p (m_v2ResourceRetryCount ?s),
                  m_v2SnapshotFailedThisCycle := True,
                  m_v2SnapshotByType := AList.update p [] (m_v2SnapshotByType ?s),
                  m_v2SnapshotPending := (if m_v2SnapshotPending ?s > 0 then m_v2SnapshotPending ?s - 1
                                          else m_v2SnapshotPending ?s)\<rparr>"
    have e: "onNetworkReplyFinished_error p s = finalizeV2SnapshotIfReady ?t"
      using True by (simp add: onNetworkReplyFinished_error_def Let_def)
    have "rebuildBlocked ?t" by (simp add: rebuildBlocked_def)
    then show ?thesis unfolding e by (rule rebuildBlocked_finalize)
  next
    case False
    then show ?thesis using b
      by (auto simp: onNetworkReplyFinished_error_def Let_def rebuildBlocked_def)
  qed
qed

lemma rebuildBlocked_device:
  assumes "rebuildBlocked s"
  shows "snd (onNetworkReplyFinished_device d doc s) = False
       \<and> rebuildBlocked (fst (onNetworkReplyFinished_device d doc s))"
proof (cases "isObject doc")
  case False
  then show ?thesis using assms by (simp add: onNetworkReplyFinished_device_def rebuildBlocked_def)
next
  case True
  let ?c = "setConnected True s"
  let ?s1 = "if d \<noteq> [] then ?c\<lparr>m_pendingV2DeviceFetch := m_pendingV2DeviceFetch ?c |-| {|d|}\<rparr> else ?c"
  have e: "onNetworkReplyFinished_device d doc s = finalizeV2SnapshotIfReady (startNextQueuedV2DeviceFetch ?s1)"
    using True by (simp add: onNetworkReplyFinished_device_def Let_def)
  have "rebuildBlocked (startNextQueuedV2DeviceFetch ?s1)" using assms by (simp add: rebuildBlocked_def)
  then show ?thesis unfolding e by (rule rebuildBlocked_finalize)
qed

lemma rebuildBlocked_snapshot:
  assumes "rebuildBlocked s"
  shows "snd (handleV2ResourceSnapshot ty arr s) = False \<and> rebuildBlocked (fst (handleV2ResourceSnapshot ty arr s))"
  unfolding handleV2ResourceSnapshot_def Let_def
  using assms by (intro rebuildBlocked_finalize) (simp add: rebuildBlocked_def)

lemma rebuildBlocked_step:
  assumes "rebuildBlocked s" "e \<noteq> FullSyncRequested"
  shows "rebuildBlocked (adapterStep e s)"
proof (cases e)
  case (RequestMetadata d)
  then show ?thesis using assms by (simp add: rebuildBlocked_def)
next
  case FetchTimerFired
  then show ?thesis using assms by (simp add: rebuildBlocked_def v2DeviceFetchTimer_timeout_def)
next
  case (ReplyFailed p)
  then show ?thesis using rebuildBlocked_error[OF assms(1), of p] by simp
next
  case (DeviceReplyOk d doc)
  then show ?thesis using rebuildBlocked_device[OF assms(1), of d doc] by simp
next
  case (SnapshotReplyOk ty arr)
  have "rebuildBlocked (setConnected True s)" using assms(1) by (simp add: rebuildBlocked_def)
  then show ?thesis using rebuildBlocked_snapshot[of "setConnected True s" ty arr] SnapshotReplyOk by simp
next
  case (DelayedRequestDue r)
  then show ?thesis using assms by (simp add: rebuildBlocked_def)
next
  case FullSyncRequested
  then show ?thesis using assms by simp
next
  case ReplyNotObject
  then show ?thesis using assms by (simp add: rebuildBlocked_def)
next
  case (RenameReplyOk d doc)
  then show ?thesis using rebuildBlocked_device[OF assms(1), of d doc] by simp
next
  case (RenameReplyFailed d)
  then show ?thesis using rebuildBlocked_error[OF assms(1), of "''device/'' @ d"] by simp
qed

lemma rebuildBlocked_run:
  "rebuildBlocked s \<Longrightarrow> FullSyncRequested \<notin> set events \<Longrightarrow> rebuildBlocked (adapterRun events s)"
  unfolding adapterRun_def
  by (induction events arbitrary: s) (auto simp: rebuildBlocked_step)

lemma exhausted_frame:
  assumes "CHR ''/'' \<notin> set rt" "rt \<noteq> []"
      and "hvalue (m_v2ResourceRetryCount s) rt 0 \<ge> 3"
  shows "emitted (fst (onNetworkReplyFinished_error rt s))
           = emitted s @ (if \<not> m_stopping s \<and> m_connected s then [connectionStateChanged False] else [])"
    and "m_v2Devices (fst (onNetworkReplyFinished_error rt s)) = m_v2Devices s"
    and "m_v2DeviceChannels (fst (onNetworkReplyFinished_error rt s)) = m_v2DeviceChannels s"
    and "m_knownDeviceExternalIds (fst (onNetworkReplyFinished_error rt s)) = m_knownDeviceExternalIds s"
  unfolding snapshot_failure_exhausted[OF assms]
  by (simp_all add: finalizeV2SnapshotIfReady_def setConnected_def emit_def)

text \<open>
  Claim C1. When the snapshot of a resource type has failed its three retries, the
  reply that gives it up does not enter the rebuild: it emits no device update and
  no removal (at most the change of the connection state), and leaves the devices,
  their channels and the set of known devices as they were; the failed type is
  recorded with an empty array. From then on the rebuild stays blocked until the
  next full synchronisation is requested: no later reply of the cycle enters it,
  and the reply that completes the cycle marks the bootstrap as done with the
  rebuild skipped. So the devices and lights that were fetched are not rebuilt or
  updated in such a cycle, and nothing is removed.
\<close>

theorem degraded_cycle_skips_rebuild_and_removals:
  assumes "CHR ''/'' \<notin> set rt" and "rt \<noteq> []"
      and "hvalue (m_v2ResourceRetryCount s) rt 0 \<ge> 3"
  shows "snd (onNetworkReplyFinished_error rt s) = False
       \<and> emitted (fst (onNetworkReplyFinished_error rt s))
           = emitted s @ (if \<not> m_stopping s \<and> m_connected s then [connectionStateChanged False] else [])
       \<and> m_v2Devices (fst (onNetworkReplyFinished_error rt s)) = m_v2Devices s
       \<and> m_v2DeviceChannels (fst (onNetworkReplyFinished_error rt s)) = m_v2DeviceChannels s
       \<and> m_knownDeviceExternalIds (fst (onNetworkReplyFinished_error rt s)) = m_knownDeviceExternalIds s
       \<and> hvalue (m_v2SnapshotByType (fst (onNetworkReplyFinished_error rt s))) rt d = []
       \<and> rebuildBlocked (fst (onNetworkReplyFinished_error rt s))
       \<and> (FullSyncRequested \<notin> set events \<longrightarrow>
            rebuildBlocked (adapterRun events (fst (onNetworkReplyFinished_error rt s)))
          \<and> snd (finalizeV2SnapshotIfReady (adapterRun events (fst (onNetworkReplyFinished_error rt s)))) = False
          \<and> snd (onNetworkReplyFinished_error p (adapterRun events (fst (onNetworkReplyFinished_error rt s)))) = False
          \<and> snd (onNetworkReplyFinished_device dv doc (adapterRun events (fst (onNetworkReplyFinished_error rt s)))) = False
          \<and> snd (handleV2ResourceSnapshot ty arr (adapterRun events (fst (onNetworkReplyFinished_error rt s)))) = False)
       \<and> (m_v2SnapshotPending s = 1 \<and> m_pendingV2DeviceFetch s = {||} \<and> m_v2DeviceFetchQueue s = []
            \<and> \<not> m_v2BootstrapDone s \<longrightarrow>
            m_v2BootstrapDone (fst (onNetworkReplyFinished_error rt s))
          \<and> \<not> m_v2SnapshotFailedThisCycle (fst (onNetworkReplyFinished_error rt s)))"
proof -
  let ?s1 = "fst (onNetworkReplyFinished_error rt s)"
  note x = exhausted_marks_degraded[OF assms]
  note f = exhausted_frame[OF assms]
  have b: "rebuildBlocked ?s1" using x(3) by (simp add: rebuildBlocked_def)
  have r: "FullSyncRequested \<notin> set events \<longrightarrow>
            rebuildBlocked (adapterRun events ?s1)
          \<and> snd (finalizeV2SnapshotIfReady (adapterRun events ?s1)) = False
          \<and> snd (onNetworkReplyFinished_error p (adapterRun events ?s1)) = False
          \<and> snd (onNetworkReplyFinished_device dv doc (adapterRun events ?s1)) = False
          \<and> snd (handleV2ResourceSnapshot ty arr (adapterRun events ?s1)) = False"
  proof
    assume n: "FullSyncRequested \<notin> set events"
    have rb: "rebuildBlocked (adapterRun events ?s1)" using b n by (rule rebuildBlocked_run)
    show "rebuildBlocked (adapterRun events ?s1)
          \<and> snd (finalizeV2SnapshotIfReady (adapterRun events ?s1)) = False
          \<and> snd (onNetworkReplyFinished_error p (adapterRun events ?s1)) = False
          \<and> snd (onNetworkReplyFinished_device dv doc (adapterRun events ?s1)) = False
          \<and> snd (handleV2ResourceSnapshot ty arr (adapterRun events ?s1)) = False"
      using rb rebuildBlocked_finalize[OF rb] rebuildBlocked_error[OF rb, of p]
            rebuildBlocked_device[OF rb, of dv doc] rebuildBlocked_snapshot[OF rb, of ty arr]
      by blast
  qed
  have l: "m_v2SnapshotPending s = 1 \<and> m_pendingV2DeviceFetch s = {||} \<and> m_v2DeviceFetchQueue s = []
            \<and> \<not> m_v2BootstrapDone s \<longrightarrow>
            m_v2BootstrapDone ?s1 \<and> \<not> m_v2SnapshotFailedThisCycle ?s1"
  proof
    assume a: "m_v2SnapshotPending s = 1 \<and> m_pendingV2DeviceFetch s = {||} \<and> m_v2DeviceFetchQueue s = []
            \<and> \<not> m_v2BootstrapDone s"
    show "m_v2BootstrapDone ?s1 \<and> \<not> m_v2SnapshotFailedThisCycle ?s1"
      using a by (simp add: degraded_cycle_skips_rebuild[OF assms])
  qed
  show ?thesis using x(1,2) f b r l by (intro conjI)
qed

theorem degraded_cycle_skips_rebuild_and_removals_witness:
  "snd (onNetworkReplyFinished_error ''button'' lastReplyDue) = False
 \<and> emitted (fst (onNetworkReplyFinished_error ''button'' lastReplyDue)) = [connectionStateChanged False]
 \<and> hvalue (m_v2SnapshotByType (fst (onNetworkReplyFinished_error ''button'' lastReplyDue))) ''button'' [JNull] = []
 \<and> snd (handleV2ResourceSnapshot ''light'' []
      (adapterRun [RequestMetadata ''dev1''] (fst (onNetworkReplyFinished_error ''button'' lastReplyDue)))) = False
 \<and> m_v2BootstrapDone (fst (onNetworkReplyFinished_error ''button'' lastReplyDue))"
proof -
  have h: "CHR ''/'' \<notin> set ''button''" "''button'' \<noteq> []"
          "hvalue (m_v2ResourceRetryCount lastReplyDue) ''button'' 0 \<ge> 3"
    by (simp_all add: lastReplyDue_def adapter0_def hvalue_def)
  have c: "FullSyncRequested \<notin> set [RequestMetadata ''dev1'']"
          "m_v2SnapshotPending lastReplyDue = 1 \<and> m_pendingV2DeviceFetch lastReplyDue = {||}
             \<and> m_v2DeviceFetchQueue lastReplyDue = [] \<and> \<not> m_v2BootstrapDone lastReplyDue"
          "emitted lastReplyDue = []" "\<not> m_stopping lastReplyDue \<and> m_connected lastReplyDue"
    by (simp_all add: lastReplyDue_def adapter0_def)
  note t = degraded_cycle_skips_rebuild_and_removals
             [OF h, of "[JNull]" "[RequestMetadata ''dev1'']" "''x''" "''dev1''" JNull "''light''" "[]"]
  show ?thesis using t c by simp
qed

theorem failed_button_snapshot_blocks_device_and_light_update:
  "hvalue (m_v2SnapshotByType lastReplyDue) ''device'' [] = [JObject [(''id'', JString ''dev1'')]]
 \<and> hvalue (m_v2SnapshotByType lastReplyDue) ''light'' [] = [JObject [(''id'', JString ''light1'')]]
 \<and> onNetworkReplyFinished_error ''button'' lastReplyDue
     = (lastReplyDue\<lparr>m_connected := False,
                      emitted := [connectionStateChanged False],
                      m_pendingV2ResourceTypes := {||},
                      m_v2ResourceRetryCount := [],
                      m_v2SnapshotByType := [(''device'', [JObject [(''id'', JString ''dev1'')]]),
                                             (''light'', [JObject [(''id'', JString ''light1'')]]),
                                             (''button'', [])],
                      m_v2SnapshotPending := 0,
                      m_v2BootstrapDone := True\<rparr>, False)"
  by (simp add: lastReplyDue_def adapter0_def onNetworkReplyFinished_error_def finalizeV2SnapshotIfReady_def
        setConnected_def emit_def hvalue_def Let_def kMaxV2ResourceSnapshotRetries_def)

text \<open>
  Claim C4. In the sidecar's poll, the first failing fetch of a core type (device,
  light, room, zone, scene) ends the poll with that fetch's error and an unchanged
  state; the tick that ran the poll reports the connection as down and the error to
  the host and schedules the next poll after the retry interval. A failing fetch of
  a secondary type is not retried and marks nothing: the poll goes on exactly as if
  the bridge had answered with an empty array. In the legacy adapter a failed
  snapshot request of any type, core or secondary, is retried: the first three
  failures each schedule the request again, after 1000, 2000 and 3000 ms; the
  failure after that records the empty array for the type, schedules nothing, and
  leaves the rebuild blocked for the cycle.
\<close>

theorem snapshot_fetch_failure_core_and_secondary:
  "(effectiveHost (env_settings env) \<noteq> [] \<and> trimmed (appKey (env_settings env)) \<noteq> []
      \<and> firstFailure (env_fetch env) coreTypes = Some e
     \<longrightarrow> pollBridge derive env st = (st, Some e))
 \<and> (m_hasBootstrap st \<and> m_nextPollDueMs st \<le> env_now env
      \<and> effectiveHost (env_settings env) \<noteq> [] \<and> trimmed (appKey (env_settings env)) \<noteq> []
      \<and> firstFailure (env_fetch env) coreTypes = Some e \<and> e \<noteq> [] \<and> (\<forall>n. env_sink env n = None)
     \<longrightarrow> sent (tick derive env st)
           = sent st @ (if m_connected_ipc st then [ConnectionStateChanged False] else []) @ [ErrorMessage e]
       \<and> m_devices (tick derive env st) = m_devices st
       \<and> m_nextPollDueMs (tick derive env st) = env_now env + max 1000 (m_retryIntervalMs st))
 \<and> (ty \<in> set secondaryTypes \<and> env_fetch env ty = Inl e2
     \<longrightarrow> pollBridge derive env st = pollBridge derive (env\<lparr>env_fetch := (env_fetch env)(ty := Inr [])\<rparr>) st)
 \<and> (CHR ''/'' \<notin> set rt \<and> rt \<noteq> [] \<and> 0 \<le> hvalue (m_v2ResourceRetryCount s) rt 0
      \<and> hvalue (m_v2ResourceRetryCount s) rt 0 < 3
     \<longrightarrow> onNetworkReplyFinished_error rt s =
           ((if \<not> m_stopping s then setConnected False s else s)
              \<lparr>m_pendingV2ResourceTypes := m_pendingV2ResourceTypes s |-| {|rt|},
               m_v2ResourceRetryCount := AList.update rt (hvalue (m_v2ResourceRetryCount s) rt 0 + 1) (m_v2ResourceRetryCount s),
               requests := requests s @ [GetSnapshotLater rt (1000 * (hvalue (m_v2ResourceRetryCount s) rt 0 + 1))]\<rparr>, False))
 \<and> (CHR ''/'' \<notin> set rt \<and> rt \<noteq> [] \<and> 3 \<le> hvalue (m_v2ResourceRetryCount s) rt 0
     \<longrightarrow> hvalue (m_v2SnapshotByType (fst (onNetworkReplyFinished_error rt s))) rt d = []
       \<and> requests (fst (onNetworkReplyFinished_error rt s)) = requests s
       \<and> rebuildBlocked (fst (onNetworkReplyFinished_error rt s))
       \<and> snd (onNetworkReplyFinished_error rt s) = False)"
proof -
  have 1: "effectiveHost (env_settings env) \<noteq> [] \<and> trimmed (appKey (env_settings env)) \<noteq> []
      \<and> firstFailure (env_fetch env) coreTypes = Some e
     \<longrightarrow> pollBridge derive env st = (st, Some e)"
    using pollBridge_core_failure[of env e derive st] by blast
  have 2: "m_hasBootstrap st \<and> m_nextPollDueMs st \<le> env_now env
      \<and> effectiveHost (env_settings env) \<noteq> [] \<and> trimmed (appKey (env_settings env)) \<noteq> []
      \<and> firstFailure (env_fetch env) coreTypes = Some e \<and> e \<noteq> [] \<and> (\<forall>n. env_sink env n = None)
     \<longrightarrow> sent (tick derive env st)
           = sent st @ (if m_connected_ipc st then [ConnectionStateChanged False] else []) @ [ErrorMessage e]
       \<and> m_devices (tick derive env st) = m_devices st
       \<and> m_nextPollDueMs (tick derive env st) = env_now env + max 1000 (m_retryIntervalMs st)"
    using tick_core_failure[of st env e derive] by blast
  have 3: "ty \<in> set secondaryTypes \<and> env_fetch env ty = Inl e2
     \<longrightarrow> pollBridge derive env st = pollBridge derive (env\<lparr>env_fetch := (env_fetch env)(ty := Inr [])\<rparr>) st"
    using pollBridge_secondary_failure[of ty env e2 derive st] by blast
  have 4: "CHR ''/'' \<notin> set rt \<and> rt \<noteq> [] \<and> 0 \<le> hvalue (m_v2ResourceRetryCount s) rt 0
      \<and> hvalue (m_v2ResourceRetryCount s) rt 0 < 3
     \<longrightarrow> onNetworkReplyFinished_error rt s =
           ((if \<not> m_stopping s then setConnected False s else s)
              \<lparr>m_pendingV2ResourceTypes := m_pendingV2ResourceTypes s |-| {|rt|},
               m_v2ResourceRetryCount := AList.update rt (hvalue (m_v2ResourceRetryCount s) rt 0 + 1) (m_v2ResourceRetryCount s),
               requests := requests s @ [GetSnapshotLater rt (1000 * (hvalue (m_v2ResourceRetryCount s) rt 0 + 1))]\<rparr>, False)"
    using snapshot_failure_retry[of rt s "hvalue (m_v2ResourceRetryCount s) rt 0"] by blast
  have 5: "CHR ''/'' \<notin> set rt \<and> rt \<noteq> [] \<and> 3 \<le> hvalue (m_v2ResourceRetryCount s) rt 0
     \<longrightarrow> hvalue (m_v2SnapshotByType (fst (onNetworkReplyFinished_error rt s))) rt d = []
       \<and> requests (fst (onNetworkReplyFinished_error rt s)) = requests s
       \<and> rebuildBlocked (fst (onNetworkReplyFinished_error rt s))
       \<and> snd (onNetworkReplyFinished_error rt s) = False"
    using exhausted_marks_degraded(1)[of rt s d] exhausted_marks_degraded(2-4)[of rt s]
    by (simp add: rebuildBlocked_def)
  show ?thesis using 1 2 3 4 5 by (intro conjI)
qed

theorem snapshot_fetch_failure_core_and_secondary_witness:
  "pollBridge noDevices (envFailing ''light'') sidecar0 = (sidecar0, Some ''timeout'')
 \<and> sent (tick noDevices (envFailing ''light'') sidecar0) = [ConnectionStateChanged False, ErrorMessage ''timeout'']
 \<and> m_nextPollDueMs (tick noDevices (envFailing ''light'') sidecar0) = 11000
 \<and> pollBridge noDevices (envFailing ''button'') sidecar0
     = pollBridge noDevices ((envFailing ''button'')\<lparr>env_fetch := (env_fetch (envFailing ''button''))(''button'' := Inr [])\<rparr>) sidecar0
 \<and> requests (fst (onNetworkReplyFinished_error ''light'' (adapter0\<lparr>m_v2ResourceRetryCount := [(''light'', 2)]\<rparr>)))
     = [GetSnapshotLater ''light'' 3000]
 \<and> requests (fst (onNetworkReplyFinished_error ''button'' lastReplyDue)) = []
 \<and> rebuildBlocked (fst (onNetworkReplyFinished_error ''button'' lastReplyDue))"
proof -
  let ?envL = "envFailing ''light''"
  let ?envB = "envFailing ''button''"
  let ?a = "adapter0\<lparr>m_v2ResourceRetryCount := [(''light'', 2)]\<rparr>"
  have hl: "effectiveHost (env_settings ?envL) \<noteq> [] \<and> trimmed (appKey (env_settings ?envL)) \<noteq> []
              \<and> firstFailure (env_fetch ?envL) coreTypes = Some ''timeout''"
    by (simp add: envFailing_def env0_def effectiveHost_def trimmed_def isSpace_def coreTypes_def)
  have ht: "m_hasBootstrap sidecar0 \<and> m_nextPollDueMs sidecar0 \<le> env_now ?envL \<and> ''timeout'' \<noteq> []
              \<and> (\<forall>n. env_sink ?envL n = None)"
    by (simp add: envFailing_def env0_def sidecar0_def acceptAll_def)
  have hb: "''button'' \<in> set secondaryTypes \<and> env_fetch ?envB ''button'' = Inl ''timeout''"
    by (simp add: secondaryTypes_def envFailing_def)
  have hr: "CHR ''/'' \<notin> set ''light'' \<and> ''light'' \<noteq> [] \<and> 0 \<le> hvalue (m_v2ResourceRetryCount ?a) ''light'' 0
              \<and> hvalue (m_v2ResourceRetryCount ?a) ''light'' 0 < 3"
    by (simp add: hvalue_def)
  have hx: "CHR ''/'' \<notin> set ''button'' \<and> ''button'' \<noteq> [] \<and> 3 \<le> hvalue (m_v2ResourceRetryCount lastReplyDue) ''button'' 0"
    by (simp add: lastReplyDue_def adapter0_def hvalue_def)
  have v: "sent sidecar0 = []" "m_connected_ipc sidecar0" "env_now ?envL = 1000" "m_retryIntervalMs sidecar0 = 10000"
          "requests ?a = []" "requests lastReplyDue = []" "hvalue (m_v2ResourceRetryCount ?a) ''light'' 0 = 2"
    by (simp_all add: sidecar0_def envFailing_def env0_def adapter0_def lastReplyDue_def hvalue_def)
  note t1 = snapshot_fetch_failure_core_and_secondary
              [of ?envL "''timeout''" noDevices sidecar0 "''button''" "''timeout''" "''light''" ?a "[]"]
  note t2 = snapshot_fetch_failure_core_and_secondary
              [of ?envB "''timeout''" noDevices sidecar0 "''button''" "''timeout''" "''button''" lastReplyDue "[]"]
  have a1: "pollBridge noDevices ?envL sidecar0 = (sidecar0, Some ''timeout'')"
    using t1 hl by blast
  have a2: "sent (tick noDevices ?envL sidecar0) = [ConnectionStateChanged False, ErrorMessage ''timeout'']
          \<and> m_nextPollDueMs (tick noDevices ?envL sidecar0) = 11000"
    using t1 hl ht v(1-4) by simp
  have a3: "pollBridge noDevices ?envB sidecar0
     = pollBridge noDevices (?envB\<lparr>env_fetch := (env_fetch ?envB)(''button'' := Inr [])\<rparr>) sidecar0"
    using t2 hb by blast
  have a4: "requests (fst (onNetworkReplyFinished_error ''light'' ?a)) = [GetSnapshotLater ''light'' 3000]"
    using t1 hr v(5,7) by (simp add: setConnected_def emit_def)
  have a5: "requests (fst (onNetworkReplyFinished_error ''button'' lastReplyDue)) = []
          \<and> rebuildBlocked (fst (onNetworkReplyFinished_error ''button'' lastReplyDue))"
    using t2 hx v(6) by simp
  show ?thesis using a1 a2 a3 a4 a5 by (intro conjI) simp_all
qed

theorem core_type_retried_and_secondary_type_not_retried:
  "onNetworkReplyFinished_error ''device'' adapter0
     = (adapter0\<lparr>m_connected := False, emitted := [connectionStateChanged False],
                  m_v2ResourceRetryCount := [(''device'', 1)],
                  requests := [GetSnapshotLater ''device'' 1000]\<rparr>, False)
 \<and> pollBridge noDevices (envFailing ''button'') sidecar0
     = (sidecar0\<lparr>sent := [ScenesUpdated [], FullSyncCompleted]\<rparr>, None)
 \<and> pollBridge noDevices env0 sidecar0
     = (sidecar0\<lparr>sent := [ScenesUpdated [], FullSyncCompleted]\<rparr>, None)"
  by (simp add: onNetworkReplyFinished_error_def adapter0_def setConnected_def emit_def hvalue_def Let_def
        kMaxV2ResourceSnapshotRetries_def kV2ResourceRetryBaseDelayMs_def requestV2ResourceSnapshot_def
        pollBridge_def envFailing_def env0_def sidecar0_def effectiveHost_def trimmed_def isSpace_def
        orEmpty_def buildSnapshot_def noDevices_def publishSnapshot_def send_def acceptAll_def
        setConnectionState_def)

section \<open>Properties of the sidecar's channel commands\<close>

text \<open>
  Claim C10. In the sidecar's command path, a write of the numeric value \<open>v\<close> to the
  channel \<open>bri\<close> builds a payload whose brightness is \<open>v\<close> clamped to 0..100 and whose
  power field is "the clamped value is positive", so that a brightness of zero (or
  less) switches the light off. Once the request has been handed to the HTTP client,
  the sidecar reports the clamped brightness on \<open>bri\<close> and that boolean on \<open>on\<close>, in
  this order (a report reaches the host if the host accepts it), and answers
  \<open>Success\<close>.
\<close>

theorem brightness_write_sets_power_and_reports_both:
  assumes "channelExternalId request = ''bri''"
      and "hasScalarValue request"
      and "scalarAsDouble (scalarValue request) = Some v"
      and "m_hasBootstrap st"
      and "hvalue (m_lightResourceByDevice st) (deviceExternalId request) [] \<noteq> []"
      and "env_put env (''/clip/v2/resource/light/'' @ hvalue (m_lightResourceByDevice st) (deviceExternalId request) [])
             [(''dimming'', JObject [(''brightness'', JNumber (clamp v 0 100))]),
              (''on'', JObject [(''on'', JBool (clamp v 0 100 > 0))])] = None"
  shows "buildLightCommandPayload extractRgb (channelExternalId request) request
           = Inr [(''dimming'', JObject [(''brightness'', JNumber (clamp v 0 100))]),
                  (''on'', JObject [(''on'', JBool (clamp v 0 100 > 0))])]
       \<and> (clamp v 0 100 > 0) = (v > 0)
       \<and> resp_status (fst (onChannelInvoke extractRgb derive env request st)) = Success
       \<and> snd (onChannelInvoke extractRgb derive env request st)
           = st\<lparr>sent := sent st @ filter (\<lambda>n. env_sink env n = None)
                 [ChannelStateUpdated (deviceExternalId request) ''bri'' (SDouble (clamp v 0 100)) (env_now env),
                  ChannelStateUpdated (deviceExternalId request) ''on'' (SBool (clamp v 0 100 > 0)) (env_now env)]\<rparr>"
proof -
  have p: "buildLightCommandPayload extractRgb (channelExternalId request) request
           = Inr [(''dimming'', JObject [(''brightness'', JNumber (clamp v 0 100))]),
                  (''on'', JObject [(''on'', JBool (clamp v 0 100 > 0))])]"
    using assms(1-3) by (simp add: buildLightCommandPayload_def Let_def)
  have c: "(clamp v 0 100 > 0) = (v > 0)" by (simp add: clamp_def)
  show ?thesis
    using assms p c
    by (cases "env_sink env (ChannelStateUpdated (deviceExternalId request) ''bri'' (SDouble (clamp v 0 100)) (env_now env))";
        cases "env_sink env (ChannelStateUpdated (deviceExternalId request) ''on'' (SBool (clamp v 0 100 > 0)) (env_now env))")
       (simp_all add: onChannelInvoke_def Let_def send_def successResponse_def)
qed

theorem brightness_write_sets_power_and_reports_both_witness:
  "buildLightCommandPayload noRgb ''bri'' (briRequest (SInt 0))
     = Inr [(''dimming'', JObject [(''brightness'', JNumber 0)]), (''on'', JObject [(''on'', JBool False)])]
   \<and> snd (onChannelInvoke noRgb noDevices env0 (briRequest (SInt 0))
            (sidecar0\<lparr>m_lightResourceByDevice := [(''dev1'', ''light1'')]\<rparr>))
     = sidecar0\<lparr>m_lightResourceByDevice := [(''dev1'', ''light1'')],
                sent := [ChannelStateUpdated ''dev1'' ''bri'' (SDouble 0) 1000,
                         ChannelStateUpdated ''dev1'' ''on'' (SBool False) 1000]\<rparr>"
  using brightness_write_sets_power_and_reports_both
          [of "briRequest (SInt 0)" 0 "sidecar0\<lparr>m_lightResourceByDevice := [(''dev1'', ''light1'')]\<rparr>" env0 noRgb noDevices]
  by (simp add: briRequest_def sidecar0_def env0_def acceptAll_def hvalue_def clamp_def)

end
